theory Spec2Isabelle
  imports Complex_Main "HOL-Library.Word" "HOL-Library.List_Lexorder" "HOL-Library.Char_ord"
    "HOL-Library.AList"
begin

unbundle bit_operations_syntax

section \<open>The FUSE metadata broker of the MGM (mgm/FuseServer.cc)\<close>

text \<open>
  The development embeds the capability store, the client registry sweep, the heartbeat
  dispatcher and the metadata request handler of \<^verbatim>\<open>FuseServer.cc\<close>.
  Strings of the source are \<open>string\<close>, compared bytewise and lexicographically as
  \<^verbatim>\<open>std::string\<close> is; 64-bit and 32-bit unsigned fields are words, so that
  additions wrap as they do in the source.
\<close>

subsection \<open>Constants\<close>

type_synonym authid_t = string
type_synonym clientid_t = string
type_synonym inode = "64 word"

abbreviation EPERM :: int where "EPERM \<equiv> 1"
abbreviation ENOENT :: int where "ENOENT \<equiv> 2"
abbreviation EAGAIN :: int where "EAGAIN \<equiv> 11"
abbreviation EEXIST :: int where "EEXIST \<equiv> 17"
abbreviation EINVAL :: int where "EINVAL \<equiv> 22"
abbreviation ENAMETOOLONG :: int where "ENAMETOOLONG \<equiv> 36"
abbreviation ENOTEMPTY :: int where "ENOTEMPTY \<equiv> 39"
abbreviation ETIMEDOUT :: int where "ETIMEDOUT \<equiv> 110"
abbreviation EDQUOT :: int where "EDQUOT \<equiv> 122"

text \<open>The access bits: \<^verbatim>\<open>X_OK, W_OK, R_OK\<close> of unistd.h and the \<^verbatim>\<open>#define\<close>s of the file.\<close>

abbreviation X_OK :: "32 word" where "X_OK \<equiv> 1"
abbreviation W_OK :: "32 word" where "W_OK \<equiv> 2"
abbreviation R_OK :: "32 word" where "R_OK \<equiv> 4"
abbreviation D_OK :: "32 word" where "D_OK \<equiv> 8"
abbreviation M_OK :: "32 word" where "M_OK \<equiv> 16"
abbreviation C_OK :: "32 word" where "C_OK \<equiv> 32"
abbreviation SA_OK :: "32 word" where "SA_OK \<equiv> 64"
abbreviation U_OK :: "32 word" where "U_OK \<equiv> 128"
abbreviation SU_OK :: "32 word" where "SU_OK \<equiv> 256"

definition k_mdino :: string where "k_mdino = ''sys.eos.mdino''"
definition k_nlink :: string where "k_nlink = ''sys.eos.nlink''"

subsection \<open>Capabilities and the capability store\<close>

text \<open>
  \<^verbatim>\<open>eos::fusex::cap\<close> with its quota sub-message. A default-constructed protobuf
  message has every number 0 and every string empty.
\<close>

record quota =
  inode_quota :: "64 word"
  volume_quota :: "64 word"
  quota_inode :: "64 word"

record capx =
  cap_id :: inode
  cap_mode :: "32 word"
  vtime :: "64 word"
  vtime_ns :: "64 word"
  cap_uid :: "32 word"
  cap_gid :: "32 word"
  cap_clientuuid :: string
  cap_clientid :: clientid_t
  cap_authid :: authid_t
  cap_errc :: "32 word"
  cap_quota :: quota
  max_file_size :: "64 word"

definition default_quota :: quota where
  "default_quota = \<lparr>inode_quota = 0, volume_quota = 0, quota_inode = 0\<rparr>"

definition default_capx :: capx where
  "default_capx = \<lparr>cap_id = 0, cap_mode = 0, vtime = 0, vtime_ns = 0, cap_uid = 0,
     cap_gid = 0, cap_clientuuid = [], cap_clientid = [], cap_authid = [], cap_errc = 0,
     cap_quota = default_quota, max_file_size = 0\<rparr>"

text \<open>
  A \<^verbatim>\<open>std::set\<close> is a list in iteration order: inserting keeps the order and the
  elements distinct, erasing removes the element. A \<^verbatim>\<open>std::map\<close> that is only looked
  up and updated at keys is a partial function. The expiry index is a
  \<^verbatim>\<open>std::multimap<time_t, authid_t>\<close>: a list of pairs ordered by the signed key, a new
  pair going behind the pairs with an equal key.
\<close>

definition set_insert :: "'a::linorder \<Rightarrow> 'a list \<Rightarrow> 'a list" where
  "set_insert x xs = (if x \<in> set xs then xs else insort x xs)"

definition set_erase :: "'a \<Rightarrow> 'a list \<Rightarrow> 'a list" where
  "set_erase x xs = removeAll x xs"

fun multimap_insert :: "64 word \<times> authid_t \<Rightarrow> (64 word \<times> authid_t) list
    \<Rightarrow> (64 word \<times> authid_t) list" where
  "multimap_insert kv [] = [kv]"
| "multimap_insert kv (x # xs) =
     (if sint (fst kv) < sint (fst x) then kv # x # xs else x # multimap_insert kv xs)"

text \<open>\<^verbatim>\<open>m[k]\<close> of a map of sets: a missing key reads as the empty set.\<close>

definition at_key :: "('k \<rightharpoonup> 'a list) \<Rightarrow> 'k \<Rightarrow> 'a list" where
  "at_key m k = (case m k of None \<Rightarrow> [] | Some xs \<Rightarrow> xs)"

record Caps =
  mCaps :: "authid_t \<rightharpoonup> capx"
  mClientCaps :: "clientid_t \<rightharpoonup> authid_t list"
  mClientInoCaps :: "clientid_t \<rightharpoonup> inode list"
  mInodeCaps :: "inode \<rightharpoonup> authid_t list"
  mTimeOrderedCap :: "(64 word \<times> authid_t) list"

definition empty_Caps :: Caps where
  "empty_Caps = \<lparr>mCaps = Map.empty, mClientCaps = Map.empty, mClientInoCaps = Map.empty,
     mInodeCaps = Map.empty, mTimeOrderedCap = []\<rparr>"

text \<open>
  A \<^verbatim>\<open>shared_cap\<close> is a shared pointer: null, the object held by the store under an
  auth-id, or an object allocated by the call and owned by nobody else.
\<close>

datatype shared_cap = Null | Stored authid_t | Fresh

fun deref :: "Caps \<Rightarrow> shared_cap \<Rightarrow> capx option" where
  "deref s Null = None"
| "deref s (Stored a) = mCaps s a"
| "deref s Fresh = Some default_capx"

text \<open>\<^verbatim>\<open>Caps::Get\<close>: the stored object, or \<^verbatim>\<open>std::make_shared<capx>()\<close>.\<close>

definition Get :: "Caps \<Rightarrow> authid_t \<Rightarrow> shared_cap" where
  "Get s a = (if a \<in> dom (mCaps s) then Stored a else Fresh)"

text \<open>The object a pointer returned by \<open>Get\<close> points to.\<close>

definition Get_cap :: "Caps \<Rightarrow> authid_t \<Rightarrow> capx" where
  "Get_cap s a = (case deref s (Get s a) of Some c \<Rightarrow> c | None \<Rightarrow> default_capx)"

text \<open>\<^verbatim>\<open>Caps::Store\<close>; the virtual identity pointer kept in the object is not modelled.\<close>

definition Store :: "capx \<Rightarrow> Caps \<Rightarrow> Caps" where
  "Store ecap s =
     s\<lparr>mTimeOrderedCap :=
         (if cap_authid ecap \<notin> dom (mCaps s)
          then multimap_insert (vtime ecap, cap_authid ecap) (mTimeOrderedCap s)
          else mTimeOrderedCap s),
       mClientCaps := (mClientCaps s)(cap_clientid ecap \<mapsto>
          set_insert (cap_authid ecap) (at_key (mClientCaps s) (cap_clientid ecap))),
       mClientInoCaps := (mClientInoCaps s)(cap_clientid ecap \<mapsto>
          set_insert (cap_id ecap) (at_key (mClientInoCaps s) (cap_clientid ecap))),
       mCaps := (mCaps s)(cap_authid ecap \<mapsto> ecap),
       mInodeCaps := (mInodeCaps s)(cap_id ecap \<mapsto>
          set_insert (cap_authid ecap) (at_key (mInodeCaps s) (cap_id ecap)))\<rparr>"

text \<open>
  \<^verbatim>\<open>Caps::Delete\<close>: one round of the loop over \<^verbatim>\<open>mInodeCaps[md_ino]\<close>, then the loop
  and the erasure of the inode's entry. The expiry index is not mentioned by the source.
\<close>

definition Delete_step :: "inode \<Rightarrow> authid_t \<Rightarrow> Caps \<Rightarrow> Caps" where
  "Delete_step md_ino sit s =
     (let s1 = s\<lparr>mClientCaps := (\<lambda>c. map_option (set_erase sit) (mClientCaps s c))\<rparr>
      in case mCaps s1 sit of
           None \<Rightarrow> s1
         | Some cap \<Rightarrow>
             (let s2 = (case mClientInoCaps s1 (cap_clientid cap) of
                          None \<Rightarrow> s1
                        | Some inos \<Rightarrow> s1\<lparr>mClientInoCaps :=
                            (mClientInoCaps s1)(cap_clientid cap \<mapsto> set_erase md_ino inos)\<rparr>)
              in s2\<lparr>mCaps := (mCaps s2)(sit := None)\<rparr>))"

definition Delete :: "inode \<Rightarrow> Caps \<Rightarrow> int \<times> Caps" where
  "Delete md_ino s =
     (case mInodeCaps s md_ino of
        None \<Rightarrow> (ENOENT, s)
      | Some auths \<Rightarrow>
          (let s' = fold (Delete_step md_ino) auths s
           in (0, s'\<lparr>mInodeCaps := (mInodeCaps s')(md_ino := None)\<rparr>)))"

subsection \<open>Metadata requests and cap validation\<close>

datatype md_operation = GET | SET | DELETE | GETCAP | LS | GETLK | SETLK | SETLKW
  | BEGINFLUSH | ENDFLUSH

datatype md_type = MD | MDLS | EXCL

record md =
  md_operation :: md_operation
  md_type :: md_type
  md_ino :: inode
  md_pino :: inode
  md_name :: string
  md_clientid :: clientid_t
  md_clientuuid :: string
  md_authid :: authid_t
  md_implied_authid :: authid_t
  md_mv_authid :: authid_t
  md_reqid :: "64 word"
  md_uid :: "32 word"
  md_gid :: "32 word"
  md_mode :: "32 word"
  md_ctime :: "64 word"
  md_ctime_ns :: "64 word"
  md_mtime :: "64 word"
  md_mtime_ns :: "64 word"
  md_btime :: "64 word"
  md_btime_ns :: "64 word"
  md_pmtime :: "64 word"
  md_pmtime_ns :: "64 word"
  md_size :: "64 word"
  md_target :: string
  md_attr :: "(string \<times> string) list"
  md_pt_mtime :: "64 word"
  md_pt_mtime_ns :: "64 word"
  md_clock :: "64 word"

text \<open>
  \<^verbatim>\<open>FuseServer::ValidateCAP\<close>. The result is the value of \<^verbatim>\<open>errno\<close> after the call and
  the returned pointer; \<open>now\<close> is \<^verbatim>\<open>(uint64_t) time(NULL)\<close>. The sum \<^verbatim>\<open>now + 60\<close> is a
  64-bit unsigned sum.
\<close>

definition ValidateCAP :: "Caps \<Rightarrow> md \<Rightarrow> 32 word \<Rightarrow> 64 word \<Rightarrow> int \<times> shared_cap" where
  "ValidateCAP s m mode now =
     (let cap = Get s (md_authid m); c = Get_cap s (md_authid m)
      in if cap_id c = 0 then (ENOENT, Null)
         else if cap_id c \<noteq> md_ino m \<and> cap_id c \<noteq> md_pino m then (EINVAL, Null)
         else if (cap_mode c AND mode) = mode
              then (if vtime c \<le> now + 60 then (ETIMEDOUT, Null) else (0, cap))
              else (EPERM, Null))"

text \<open>\<^verbatim>\<open>FuseServer::InodeFromCAP\<close>: the pointer is never null, so the inode of the object.\<close>

definition InodeFromCAP :: "Caps \<Rightarrow> md \<Rightarrow> inode" where
  "InodeFromCAP s m = cap_id (Get_cap s (md_authid m))"

subsection \<open>Broadcast recipients\<close>

text \<open>
  The first half of \<^verbatim>\<open>Caps::BroadcastRelease\<close> collects the capabilities to notify in
  the vector \<^verbatim>\<open>bccaps\<close>: the loop over the auth-ids listed under the inode, with its
  four \<^verbatim>\<open>continue\<close> tests in the order of the source. The second half, which sends, is
  \<open>BroadcastRelease\<close> below, after the client registry it uses.
\<close>

fun release_loop :: "Caps \<Rightarrow> md \<Rightarrow> capx \<Rightarrow> authid_t list \<Rightarrow> capx list" where
  "release_loop s m refcap [] = []"
| "release_loop s m refcap (it # rest) =
     (case mCaps s it of
        None \<Rightarrow> release_loop s m refcap rest
      | Some cap \<Rightarrow>
          if cap_authid cap = md_authid m then release_loop s m refcap rest
          else if cap_clientuuid cap = cap_clientuuid refcap then release_loop s m refcap rest
          else if cap_id cap \<noteq> 0 then cap # release_loop s m refcap rest
          else release_loop s m refcap rest)"

text \<open>The inode whose subscribers are notified: the one of the originating cap, else \<^verbatim>\<open>md.md_pino()\<close>.\<close>

definition release_inode :: "Caps \<Rightarrow> md \<Rightarrow> inode" where
  "release_inode s m =
     (let refcap = Get_cap s (md_authid m)
      in if cap_id refcap = 0 then md_pino m else cap_id refcap)"

definition BroadcastRelease_bccaps :: "Caps \<Rightarrow> md \<Rightarrow> capx list" where
  "BroadcastRelease_bccaps s m =
     (let refcap = Get_cap s (md_authid m)
      in case mInodeCaps s (release_inode s m) of
           None \<Rightarrow> []
         | Some auths \<Rightarrow> release_loop s m refcap auths)"

text \<open>
  The first half of \<^verbatim>\<open>Caps::BroadcastMD\<close>: the same loop with the set
  \<^verbatim>\<open>clients_sent\<close> of client uuids already chosen. The second half is \<open>BroadcastMD\<close>
  below.
\<close>

fun md_loop :: "Caps \<Rightarrow> md \<Rightarrow> capx \<Rightarrow> string list \<Rightarrow> authid_t list \<Rightarrow> capx list" where
  "md_loop s m refcap clients_sent [] = []"
| "md_loop s m refcap clients_sent (it # rest) =
     (case mCaps s it of
        None \<Rightarrow> md_loop s m refcap clients_sent rest
      | Some cap \<Rightarrow>
          if cap_authid cap = md_authid m then md_loop s m refcap clients_sent rest
          else if cap_clientuuid cap = cap_clientuuid refcap
               then md_loop s m refcap clients_sent rest
          else if cap_id cap \<noteq> 0 \<and> cap_clientuuid cap \<notin> set clients_sent
               then cap # md_loop s m refcap (set_insert (cap_clientuuid cap) clients_sent) rest
          else md_loop s m refcap clients_sent rest)"

definition BroadcastMD_bccaps :: "Caps \<Rightarrow> md \<Rightarrow> inode \<Rightarrow> capx list" where
  "BroadcastMD_bccaps s m pino =
     (let refcap = Get_cap s (md_authid m)
      in case mInodeCaps s pino of
           None \<Rightarrow> []
         | Some auths \<Rightarrow> md_loop s m refcap [] auths)"

text \<open>
  The capabilities the recipient rule names: registered under the inode in the inode index,
  held in the primary map with a non-zero inode, of another auth-id and of another mount.
\<close>

definition subscribers :: "Caps \<Rightarrow> inode \<Rightarrow> authid_t \<Rightarrow> string \<Rightarrow> capx set" where
  "subscribers s i a0 u0 =
     {c. \<exists>a \<in> set (at_key (mInodeCaps s) i).
           mCaps s a = Some c \<and> cap_authid c \<noteq> a0 \<and> cap_clientuuid c \<noteq> u0 \<and> cap_id c \<noteq> 0}"

text \<open>Every capability of the primary map is listed in the inode index under its inode.\<close>

definition caps_indexed :: "Caps \<Rightarrow> bool" where
  "caps_indexed s \<longleftrightarrow>
     (\<forall>a c. mCaps s a = Some c \<longrightarrow> a \<in> set (at_key (mInodeCaps s) (cap_id c)))"

subsection \<open>Sample data\<close>

definition default_md :: md where
  "default_md = \<lparr>md_operation = GET, md_type = MD, md_ino = 0, md_pino = 0, md_name = [],
     md_clientid = [], md_clientuuid = [], md_authid = [], md_implied_authid = [],
     md_mv_authid = [], md_reqid = 0, md_uid = 0, md_gid = 0, md_mode = 0, md_ctime = 0,
     md_ctime_ns = 0, md_mtime = 0, md_mtime_ns = 0, md_btime = 0, md_btime_ns = 0,
     md_pmtime = 0, md_pmtime_ns = 0, md_size = 0, md_target = [], md_attr = [],
     md_pt_mtime = 0, md_pt_mtime_ns = 0, md_clock = 0\<rparr>"

definition cap_of :: "authid_t \<Rightarrow> string \<Rightarrow> capx" where
  "cap_of a u = default_capx\<lparr>cap_id := 5, cap_mode := 66, vtime := 1000, cap_authid := a,
     cap_clientid := ''id-'' @ u, cap_clientuuid := u\<rparr>"

definition one_cap_store :: Caps where
  "one_cap_store = Store (cap_of ''a1'' ''u1'') empty_Caps"

definition three_cap_store :: Caps where
  "three_cap_store =
     Store (cap_of ''a2'' ''u1'') (Store (cap_of ''a1'' ''u1'') (Store (cap_of ''a0'' ''u0'') empty_Caps))"


subsection \<open>The client registry\<close>

text \<open>
  \<^verbatim>\<open>eos::fusex::heartbeat\<close> (the fields the broker reads) and a registered client. The
  two extension maps are protobuf maps, given as the list of their entries.
\<close>

record heartbeat =
  hb_name :: string
  hb_host :: string
  hb_uuid :: string
  hb_clock :: "64 word"
  hb_clock_ns :: "64 word"
  hb_protversion :: "32 word"
  hb_leasetime :: "32 word"
  hb_shutdown :: bool
  hb_authextension :: "(authid_t \<times> 32 word) list"
  hb_authrevocation :: "(authid_t \<times> 32 word) list"

datatype client_state = PENDING | EVICTED | OFFLINE | VOLATILE | ONLINE

record Client =
  heartbeat :: heartbeat
  state :: client_state

definition default_heartbeat :: heartbeat where
  "default_heartbeat = \<lparr>hb_name = [], hb_host = [], hb_uuid = [], hb_clock = 0,
     hb_clock_ns = 0, hb_protversion = 0, hb_leasetime = 0, hb_shutdown = False,
     hb_authextension = [], hb_authrevocation = []\<rparr>"


text \<open>
  A \<^verbatim>\<open>std::map\<close> that is iterated is the list of its entries in key order:
  \<^verbatim>\<open>m[k] = v\<close> overwrites the entry of \<open>k\<close> or inserts it at its place,
  \<^verbatim>\<open>m.erase(k)\<close> drops it.
\<close>

fun map_assign :: "'k::linorder \<Rightarrow> 'v \<Rightarrow> ('k \<times> 'v) list \<Rightarrow> ('k \<times> 'v) list" where
  "map_assign k v [] = [(k, v)]"
| "map_assign k v (x # xs) =
     (if k = fst x then (k, v) # xs
      else if k < fst x then (k, v) # x # xs
      else x # map_assign k v xs)"

definition map_erase :: "'k \<Rightarrow> ('k \<times> 'v) list \<Rightarrow> ('k \<times> 'v) list" where
  "map_erase k xs = filter (\<lambda>x. fst x \<noteq> k) xs"

record Clients =
  mMap :: "(string \<times> Client) list"
  mUUIDView :: "string \<rightharpoonup> string"
  mHeartBeatWindow :: rat
  mHeartBeatOfflineWindow :: rat
  mHeartBeatRemoveWindow :: rat
  mHeartBeatInterval :: int
  mQuotaCheckInterval :: int

record timespec =
  tv_sec :: "64 word"
  tv_nsec :: "64 word"

text \<open>The messages handed to the transport: the identity addressed and the response.\<close>

datatype ack_code = OK | TMP_FAILURE | PERMANENT_FAILURE

record ack =
  ack_code :: ack_code
  ack_transactionid :: "64 word"
  ack_err_no :: int
  ack_err_msg :: string
  ack_md_ino :: inode

datatype response =
    ACK ack
  | EVICT_msg string
  | LEASE_RELEASECAP inode clientid_t
  | MD_update md
  | CONFIG int bool
  | DROPCAPS
  | NONE

type_synonym message = "string \<times> response"

text \<open>
  The age of a heartbeat as both loops compute it: the seconds are the difference of
  \<^verbatim>\<open>tv_sec\<close> and the unsigned 64-bit \<^verbatim>\<open>clock()\<close>, an unsigned difference that
  wraps; the nanoseconds are the difference of the two values cast to \<^verbatim>\<open>int64_t\<close>, a
  signed 64-bit difference, which wraps in the compiled code when it does not fit. The
  \<^verbatim>\<open>double\<close> arithmetic on the two differences is taken as exact.
\<close>

definition last_heartbeat :: "timespec \<Rightarrow> heartbeat \<Rightarrow> rat" where
  "last_heartbeat tsnow hb =
     of_nat (unat (tv_sec tsnow - hb_clock hb))
     + of_int (sint (tv_nsec tsnow - hb_clock_ns hb)) / 1000000000"

text \<open>\<^verbatim>\<open>Clients::Evict\<close>: the return code and the message sent.\<close>

definition Evict :: "Clients \<Rightarrow> string \<Rightarrow> string \<Rightarrow> int \<times> message list" where
  "Evict cl uuid reason =
     (case mUUIDView cl uuid of
        None \<Rightarrow> (ENOENT, [])
      | Some ident \<Rightarrow> (0, [(ident, EVICT_msg reason)]))"

text \<open>
  \<^verbatim>\<open>Clients::ReleaseCAP\<close>: the release message is handed to the transport for the
  identity registered under the uuid; for a uuid that is not in the uuid view the function
  returns \<open>ENOENT\<close> and nothing is sent.
\<close>

definition ReleaseCAP :: "Clients \<Rightarrow> inode \<Rightarrow> string \<Rightarrow> clientid_t \<Rightarrow> int \<times> message list" where
  "ReleaseCAP cl ino uuid clientid =
     (case mUUIDView cl uuid of
        None \<Rightarrow> (ENOENT, [])
      | Some ident \<Rightarrow> (0, [(ident, LEASE_RELEASECAP ino clientid)]))"

text \<open>
  \<^verbatim>\<open>Clients::SendMD\<close>: the update message \<^verbatim>\<open>rsp\<close> is the metadata of the request with
  the type, the client id of the recipient, the two inodes, the parent modification time
  when its seconds are not 0, and the clock; it is sent as \<open>ReleaseCAP\<close> sends.
\<close>

definition SendMD_rsp :: "md \<Rightarrow> clientid_t \<Rightarrow> inode \<Rightarrow> inode \<Rightarrow> 64 word \<Rightarrow> timespec \<Rightarrow> md" where
  "SendMD_rsp m clientid ino pino clock p_mtime =
     (let rsp = m\<lparr>md_type := MD, md_clientid := clientid, md_ino := ino, md_pino := pino\<rparr>;
          rsp1 = (if tv_sec p_mtime \<noteq> 0
                  then rsp\<lparr>md_pt_mtime := tv_sec p_mtime, md_pt_mtime_ns := tv_nsec p_mtime\<rparr>
                  else rsp)
      in rsp1\<lparr>md_clock := clock\<rparr>)"

definition SendMD :: "Clients \<Rightarrow> md \<Rightarrow> string \<Rightarrow> clientid_t \<Rightarrow> inode \<Rightarrow> inode \<Rightarrow> 64 word
    \<Rightarrow> timespec \<Rightarrow> int \<times> message list" where
  "SendMD cl m uuid clientid ino pino clock p_mtime =
     (case mUUIDView cl uuid of
        None \<Rightarrow> (ENOENT, [])
      | Some ident \<Rightarrow> (0, [(ident, MD_update (SendMD_rsp m clientid ino pino clock p_mtime))]))"

text \<open>
  The whole of \<^verbatim>\<open>Caps::BroadcastRelease\<close> and \<^verbatim>\<open>Caps::BroadcastMD\<close>: the first loop
  fills the vector \<^verbatim>\<open>bccaps\<close>, the second calls \<open>ReleaseCAP\<close> or \<open>SendMD\<close> for each
  of its elements in order, whatever the calls return. The result is the list of the
  messages handed to the transport, in the order of sending.
\<close>

definition BroadcastRelease :: "Clients \<Rightarrow> Caps \<Rightarrow> md \<Rightarrow> message list" where
  "BroadcastRelease cl s m =
     concat (map (\<lambda>it. snd (ReleaseCAP cl (cap_id it) (cap_clientuuid it) (cap_clientid it)))
       (BroadcastRelease_bccaps s m))"

definition BroadcastMD :: "Clients \<Rightarrow> Caps \<Rightarrow> md \<Rightarrow> inode \<Rightarrow> inode \<Rightarrow> 64 word \<Rightarrow> timespec
    \<Rightarrow> message list" where
  "BroadcastMD cl s m ino pino clock p_mtime =
     concat (map (\<lambda>it. snd (SendMD cl m (cap_clientuuid it) (cap_clientid it) ino pino clock
                              p_mtime))
       (BroadcastMD_bccaps s m pino))"

text \<open>\<^verbatim>\<open>Clients::leasetime\<close>.\<close>

definition leasetime :: "Clients \<Rightarrow> string \<Rightarrow> nat" where
  "leasetime cl uuid =
     (let l = (case mUUIDView cl uuid of
                 None \<Rightarrow> 0
               | Some ident \<Rightarrow>
                   (case map_of (mMap cl) ident of
                      None \<Rightarrow> 0
                    | Some c \<Rightarrow> unat (hb_leasetime (heartbeat c))))
      in if l > 7 * 86400 then 7 * 86400 else l)"

text \<open>
  One round of the loop of \<^verbatim>\<open>Clients::MonitorHeartBeat\<close> over the registry. The round
  sets the state of the client, notes the sessions to evict in the two maps from uuid to
  identity, and asks the lock tracker to drop the locks of a uuid; the calls of
  \<^verbatim>\<open>dropLocks\<close> are recorded in their order. \<open>v2\<close> is the protocol version
  \<^verbatim>\<open>PROTOCOLV2\<close> of the heartbeat message.
\<close>

record sweep =
  evictmap :: "(string \<times> string) list"
  evictversionmap :: "(string \<times> string) list"
  dropLocks_calls :: "string list"

definition empty_sweep :: sweep where
  "empty_sweep = \<lparr>evictmap = [], evictversionmap = [], dropLocks_calls = []\<rparr>"

definition heartbeat_round :: "Clients \<Rightarrow> 32 word \<Rightarrow> timespec \<Rightarrow> string \<Rightarrow> Client \<Rightarrow> sweep
    \<Rightarrow> Client \<times> sweep" where
  "heartbeat_round cl v2 tsnow ident c sw =
     (let lhb = last_heartbeat tsnow (heartbeat c);
          uuid = hb_uuid (heartbeat c);
          (c1, sw1) =
            (if hb_shutdown (heartbeat c)
             then (c\<lparr>state := EVICTED\<rparr>, sw\<lparr>evictmap := map_assign uuid ident (evictmap sw)\<rparr>)
             else if lhb > mHeartBeatWindow cl
             then (if lhb > mHeartBeatOfflineWindow cl
                   then (if lhb > mHeartBeatRemoveWindow cl
                         then (c\<lparr>state := EVICTED\<rparr>,
                               sw\<lparr>evictmap := map_assign uuid ident (evictmap sw)\<rparr>)
                         else (c\<lparr>state := OFFLINE\<rparr>,
                               if state c \<noteq> OFFLINE
                               then sw\<lparr>dropLocks_calls := dropLocks_calls sw @ [uuid]\<rparr>
                               else sw))
                   else (c\<lparr>state := VOLATILE\<rparr>, sw))
             else (c\<lparr>state := ONLINE\<rparr>, sw))
      in if hb_protversion (heartbeat c) < v2
         then (c1\<lparr>state := EVICTED\<rparr>,
               sw1\<lparr>evictversionmap := map_assign uuid ident (evictversionmap sw1)\<rparr>)
         else (c1, sw1))"

fun heartbeat_loop :: "Clients \<Rightarrow> 32 word \<Rightarrow> timespec \<Rightarrow> (string \<times> Client) list \<Rightarrow> sweep
    \<Rightarrow> (string \<times> Client) list \<times> sweep" where
  "heartbeat_loop cl v2 tsnow [] sw = ([], sw)"
| "heartbeat_loop cl v2 tsnow (it # rest) sw =
     (let (c', sw') = heartbeat_round cl v2 tsnow (fst it) (snd it) sw;
          (rest', sw'') = heartbeat_loop cl v2 tsnow rest sw'
      in ((fst it, c') # rest', sw''))"

text \<open>The two loops that delete the sessions noted for eviction.\<close>

definition erase_evicted :: "string \<times> string \<Rightarrow> Clients \<Rightarrow> Clients" where
  "erase_evicted it cl =
     cl\<lparr>mMap := map_erase (snd it) (mMap cl), mUUIDView := (mUUIDView cl)(fst it := None)\<rparr>"

definition versionerror :: string where
  "versionerror = ''Server supports PROTOCOLV3 and requires atleast PROTOCOLV2''"

definition evict_version :: "string \<times> string \<Rightarrow> Clients \<times> message list
    \<Rightarrow> Clients \<times> message list" where
  "evict_version it acc =
     (let (cl, msgs) = acc;
          (rc, sent) = Evict cl (fst it) versionerror
      in (erase_evicted it cl, msgs @ sent))"

text \<open>
  One pass of the \<^verbatim>\<open>while\<close> loop of \<^verbatim>\<open>MonitorHeartBeat\<close>, up to the expiry of
  flushes and the sleep of one second: the registry after the pass, the calls of
  \<^verbatim>\<open>dropLocks\<close> and the messages sent.
\<close>

definition MonitorHeartBeat_pass :: "32 word \<Rightarrow> timespec \<Rightarrow> Clients
    \<Rightarrow> Clients \<times> string list \<times> message list" where
  "MonitorHeartBeat_pass v2 tsnow cl =
     (let (m1, sw) = heartbeat_loop cl v2 tsnow (mMap cl) empty_sweep;
          cl1 = fold erase_evicted (evictmap sw) (cl\<lparr>mMap := m1\<rparr>);
          (cl2, msgs) = fold evict_version (evictversionmap sw) (cl1, [])
      in (cl2, dropLocks_calls sw, msgs))"

text \<open>
  \<^verbatim>\<open>Clients::Dispatch\<close>. The block applying the lifetime extensions writes through the
  pointer \<open>Get\<close> returns: into the stored object, or into a default object that is dropped
  at the end of the round. The sum is a 64-bit unsigned sum.
\<close>

definition extend_cap :: "authid_t \<times> 32 word \<Rightarrow> Caps \<Rightarrow> Caps" where
  "extend_cap it caps =
     (case Get caps (fst it) of
        Stored a \<Rightarrow>
          (case mCaps caps a of
             None \<Rightarrow> caps
           | Some c \<Rightarrow>
               if vtime c \<noteq> 0
               then caps\<lparr>mCaps := (mCaps caps)(a \<mapsto> c\<lparr>vtime := vtime c + ucast (snd it)\<rparr>)\<rparr>
               else caps)
      | _ \<Rightarrow> caps)"



definition sample_Clients :: Clients where
  "sample_Clients = \<lparr>mMap = [], mUUIDView = Map.empty, mHeartBeatWindow = 5,
     mHeartBeatOfflineWindow = 30, mHeartBeatRemoveWindow = 120, mHeartBeatInterval = 1,
     mQuotaCheckInterval = 16\<rparr>"






definition one_session :: "heartbeat \<Rightarrow> client_state \<Rightarrow> Clients" where
  "one_session hb st = sample_Clients\<lparr>mMap := [(''id1'', \<lparr>heartbeat = hb, state = st\<rparr>)],
     mUUIDView := [hb_uuid hb \<mapsto> ''id1'']\<rparr>"

definition silent_heartbeat :: heartbeat where
  "silent_heartbeat = default_heartbeat\<lparr>hb_uuid := ''u1'', hb_protversion := 3\<rparr>"

subsection \<open>Numbers as decimal strings\<close>

text \<open>
  \<^verbatim>\<open>std::to_string\<close> on integers, and the parsing done by \<^verbatim>\<open>std::stoi\<close>,
  \<^verbatim>\<open>std::stol\<close>, \<^verbatim>\<open>std::stoll\<close> and \<^verbatim>\<open>atoll\<close>: white space is skipped, a sign is
  read, then decimal digits as far as they go. The \<^verbatim>\<open>sto\<close> functions throw
  \<^verbatim>\<open>std::invalid_argument\<close> when there is no digit and \<^verbatim>\<open>std::out_of_range\<close> when the
  value does not fit; \<^verbatim>\<open>atoll\<close> returns 0 when there is no digit and the nearest bound
  when the value does not fit (as \<^verbatim>\<open>strtoll\<close> does).
\<close>

definition digit_char :: "nat \<Rightarrow> char" where
  "digit_char d = ''0123456789'' ! d"

function to_string_nat :: "nat \<Rightarrow> string" where
  "to_string_nat n =
     (if n < 10 then [digit_char n] else to_string_nat (n div 10) @ [digit_char (n mod 10)])"
  by pat_completeness auto
termination
  by (relation "measure id") auto

definition to_string :: "int \<Rightarrow> string" where
  "to_string i = (if i < 0 then CHR ''-'' # to_string_nat (nat (- i)) else to_string_nat (nat i))"

definition is_digit :: "char \<Rightarrow> bool" where
  "is_digit c \<longleftrightarrow> 48 \<le> (of_char c :: nat) \<and> (of_char c :: nat) \<le> 57"

definition digit_val :: "char \<Rightarrow> nat" where
  "digit_val c = of_char c - 48"

definition is_space :: "char \<Rightarrow> bool" where
  "is_space c \<longleftrightarrow> (of_char c :: nat) = 32 \<or> (9 \<le> (of_char c :: nat) \<and> (of_char c :: nat) \<le> 13)"

fun parse_digits :: "nat \<Rightarrow> string \<Rightarrow> nat" where
  "parse_digits acc [] = acc"
| "parse_digits acc (c # cs) =
     (if is_digit c then parse_digits (acc * 10 + digit_val c) cs else acc)"

definition parse_signed :: "string \<Rightarrow> int option" where
  "parse_signed s =
     (let s1 = dropWhile is_space s;
          neg = (s1 \<noteq> [] \<and> hd s1 = CHR ''-'');
          s2 = (if s1 \<noteq> [] \<and> (hd s1 = CHR ''-'' \<or> hd s1 = CHR ''+'') then tl s1 else s1)
      in if s2 = [] \<or> \<not> is_digit (hd s2) then None
         else Some (if neg then - int (parse_digits 0 s2) else int (parse_digits 0 s2)))"

datatype std_exception = invalid_argument | out_of_range

definition sto :: "int \<Rightarrow> string \<Rightarrow> std_exception + int" where
  "sto bound s =
     (case parse_signed s of
        None \<Rightarrow> Inl invalid_argument
      | Some v \<Rightarrow> if v < (- bound) \<or> bound \<le> v then Inl out_of_range else Inr v)"

definition stoi :: "string \<Rightarrow> std_exception + int" where
  "stoi = sto 2147483648"

definition stol :: "string \<Rightarrow> std_exception + int" where
  "stol = sto 9223372036854775808"

definition stoll :: "string \<Rightarrow> std_exception + int" where
  "stoll = sto 9223372036854775808"

definition atoll :: "string \<Rightarrow> int" where
  "atoll s =
     (case parse_signed s of
        None \<Rightarrow> 0
      | Some v \<Rightarrow>
          if v < (- 9223372036854775808) then (- 9223372036854775808)
          else if 9223372036854775808 \<le> v then 9223372036854775807
          else v)"

subsection \<open>The namespace view and the other collaborators\<close>

text \<open>
  Modelled from the spec: the namespace view, that is the container and file metadata
  services with their metadata objects, is not among the sources. It offers lookup,
  creation, update and removal of containers and files by id and by name in the parent.
  A metadata object is held by the service under its id; the handler's shared pointers to
  it are the id, a write through a pointer changes the object in the service, and a write
  to an object the service no longer holds is lost. A lookup by id of an object that does
  not exist throws \<^verbatim>\<open>MDException\<close> with \<open>ENOENT\<close>, as does reading an attribute that
  is not set; the other operations do not throw. Storing an object
  (\<^verbatim>\<open>updateStore\<close>) and the quota accounting have no effect on this state.
\<close>

record vid =
  vid_uid :: "32 word"
  vid_gid :: "32 word"
  vid_sudoer :: bool
  vid_prot :: string
  vid_dn :: string
  vid_uid_string :: string

type_synonym xattrs = "(string \<times> string) list"
type_synonym ctime_t = "64 word \<times> 64 word"

record ContainerMD =
  c_id :: "64 word"
  c_parent :: "64 word"
  c_name :: string
  c_uid :: "32 word"
  c_gid :: "32 word"
  c_mode :: "32 word"
  c_ctime :: ctime_t
  c_mtime :: ctime_t
  c_attrs :: xattrs
  c_containers :: "(string \<times> 64 word) list"
  c_files :: "(string \<times> 64 word) list"

record FileMD =
  f_id :: "64 word"
  f_container :: "64 word"
  f_name :: string
  f_uid :: "32 word"
  f_gid :: "32 word"
  f_size :: "64 word"
  f_flags :: "32 word"
  f_layout :: "32 word"
  f_ctime :: ctime_t
  f_mtime :: ctime_t
  f_attrs :: xattrs
  f_link :: string
  f_locations :: "32 word list"
  f_unlinked :: "32 word list"

definition new_ContainerMD :: "64 word \<Rightarrow> ContainerMD" where
  "new_ContainerMD i = \<lparr>c_id = i, c_parent = 0, c_name = [], c_uid = 0, c_gid = 0, c_mode = 0,
     c_ctime = (0, 0), c_mtime = (0, 0), c_attrs = [], c_containers = [], c_files = []\<rparr>"

definition new_FileMD :: "64 word \<Rightarrow> FileMD" where
  "new_FileMD i = \<lparr>f_id = i, f_container = 0, f_name = [], f_uid = 0, f_gid = 0, f_size = 0,
     f_flags = 0, f_layout = 0, f_ctime = (0, 0), f_mtime = (0, 0), f_attrs = [], f_link = [],
     f_locations = [], f_unlinked = []\<rparr>"

text \<open>The state the handler works on: the two metadata services and the capability store.\<close>

record server =
  containers :: "64 word \<rightharpoonup> ContainerMD"
  files :: "64 word \<rightharpoonup> FileMD"
  next_cid :: "64 word"
  next_fid :: "64 word"
  cap_store :: Caps

text \<open>
  What the handler uses and the sources do not define, as parameters: the inode
  conversions of \<^verbatim>\<open>common::FileId\<close>, the POSIX access check of a container, the
  evaluation of its ACL, the two constants \<^verbatim>\<open>EOS_COMMON_PATH_ATOMIC_FILE_PREFIX\<close> and
  \<^verbatim>\<open>Recycle::gRecyclingAttribute\<close>, the outcome of the inode quota check at file creation
  (space view and quota oracle), the layout given by the policy, and the deletion through
  the recycle bin
  (\<^verbatim>\<open>WriteRecycleRecord\<close> and \<^verbatim>\<open>_rem\<close>).
\<close>

record acl =
  HasAcl :: bool
  CanRead :: bool
  CanWrite :: bool
  CanWriteOnce :: bool
  CanBrowse :: bool
  CanNotDelete :: bool
  IsMutable :: bool

record env =
  IsFileInode :: "inode \<Rightarrow> bool"
  InodeToFid :: "inode \<Rightarrow> 64 word"
  FidToInode :: "64 word \<Rightarrow> inode"
  access :: "ContainerMD \<Rightarrow> 32 word \<Rightarrow> 32 word \<Rightarrow> 32 word \<Rightarrow> bool"
  Acl :: "xattrs \<Rightarrow> vid \<Rightarrow> acl"
  atomic_file_prefix :: string
  gRecyclingAttribute :: string
  out_of_inode_quota :: "vid \<Rightarrow> ContainerMD \<Rightarrow> bool"
  layoutId :: "vid \<Rightarrow> xattrs \<Rightarrow> 32 word"
  recycle_rem :: "64 word \<Rightarrow> vid \<Rightarrow> server \<Rightarrow> server"

text \<open>
  How a piece of the handler ends: it falls through with a value, it leaves the handler
  with \<^verbatim>\<open>return\<close>, it throws \<^verbatim>\<open>MDException\<close> (errno and message), or it throws one of
  the standard exceptions, which no handler of the file catches. A piece of code is a
  function from the state to its end and the state it leaves.
\<close>

datatype exit = Return int | MDException int string | StdException std_exception

type_synonym 'a action = "server \<Rightarrow> (exit + 'a) \<times> server"

definition ret :: "'a \<Rightarrow> 'a action" where
  "ret x s = (Inr x, s)"

definition bnd :: "'a action \<Rightarrow> ('a \<Rightarrow> 'b action) \<Rightarrow> 'b action" where
  "bnd m f s = (case m s of (Inl e, s') \<Rightarrow> (Inl e, s') | (Inr x, s') \<Rightarrow> f x s')"

definition leave :: "exit \<Rightarrow> 'a action" where
  "leave e s = (Inl e, s)"

definition update :: "(server \<Rightarrow> server) \<Rightarrow> unit action" where
  "update f s = (Inr (), f s)"

definition read :: "(server \<Rightarrow> 'a) \<Rightarrow> 'a action" where
  "read f s = (Inr (f s), s)"

definition lift_std :: "std_exception + 'a \<Rightarrow> 'a action" where
  "lift_std r = (case r of Inl e \<Rightarrow> leave (StdException e) | Inr x \<Rightarrow> ret x)"

text \<open>\<^verbatim>\<open>try { m } catch (eos::MDException& e) { }\<close> with an empty handler.\<close>

definition ignore_MDException :: "unit action \<Rightarrow> unit action" where
  "ignore_MDException m s =
     (case m s of (Inl (MDException e msg), s') \<Rightarrow> (Inr (), s') | r \<Rightarrow> r)"

text \<open>The metadata services.\<close>

definition the_container :: "server \<Rightarrow> 64 word \<Rightarrow> ContainerMD" where
  "the_container s i = (case containers s i of None \<Rightarrow> new_ContainerMD i | Some c \<Rightarrow> c)"

definition the_file :: "server \<Rightarrow> 64 word \<Rightarrow> FileMD" where
  "the_file s i = (case files s i of None \<Rightarrow> new_FileMD i | Some f \<Rightarrow> f)"

definition getContainerMD :: "64 word \<Rightarrow> (64 word) action" where
  "getContainerMD i s =
     (case containers s i of
        None \<Rightarrow> (Inl (MDException ENOENT ''No such container''), s)
      | Some c \<Rightarrow> (Inr i, s))"

definition getFileMD :: "64 word \<Rightarrow> (64 word) action" where
  "getFileMD i s =
     (case files s i of
        None \<Rightarrow> (Inl (MDException ENOENT ''No such file''), s)
      | Some f \<Rightarrow> (Inr i, s))"

definition on_container :: "64 word \<Rightarrow> (ContainerMD \<Rightarrow> ContainerMD) \<Rightarrow> unit action" where
  "on_container i f = update (\<lambda>s. s\<lparr>containers := (containers s)(i := map_option f (containers s i))\<rparr>)"

definition on_file :: "64 word \<Rightarrow> (FileMD \<Rightarrow> FileMD) \<Rightarrow> unit action" where
  "on_file i f = update (\<lambda>s. s\<lparr>files := (files s)(i := map_option f (files s i))\<rparr>)"

definition createContainer :: "(64 word) action" where
  "createContainer s =
     (Inr (next_cid s),
      s\<lparr>containers := (containers s)(next_cid s \<mapsto> new_ContainerMD (next_cid s)),
        next_cid := next_cid s + 1\<rparr>)"

definition createFile :: "(64 word) action" where
  "createFile s =
     (Inr (next_fid s),
      s\<lparr>files := (files s)(next_fid s \<mapsto> new_FileMD (next_fid s)), next_fid := next_fid s + 1\<rparr>)"

definition removeContainerMD :: "64 word \<Rightarrow> unit action" where
  "removeContainerMD i = update (\<lambda>s. s\<lparr>containers := (containers s)(i := None)\<rparr>)"

definition removeFileMD :: "64 word \<Rightarrow> unit action" where
  "removeFileMD i = update (\<lambda>s. s\<lparr>files := (files s)(i := None)\<rparr>)"

definition findContainer :: "64 word \<Rightarrow> string \<Rightarrow> (64 word option) action" where
  "findContainer p name = read (\<lambda>s. map_of (c_containers (the_container s p)) name)"

definition findFile :: "64 word \<Rightarrow> string \<Rightarrow> (64 word option) action" where
  "findFile p name = read (\<lambda>s. map_of (c_files (the_container s p)) name)"

definition removeContainer :: "64 word \<Rightarrow> string \<Rightarrow> unit action" where
  "removeContainer p name =
     on_container p (\<lambda>c. c\<lparr>c_containers := AList.delete name (c_containers c)\<rparr>)"

definition removeFile :: "64 word \<Rightarrow> string \<Rightarrow> unit action" where
  "removeFile p name = on_container p (\<lambda>c. c\<lparr>c_files := AList.delete name (c_files c)\<rparr>)"

definition addContainer :: "64 word \<Rightarrow> 64 word \<Rightarrow> unit action" where
  "addContainer p i =
     bnd (on_container i (\<lambda>c. c\<lparr>c_parent := p\<rparr>)) (\<lambda>_.
     bnd (read (\<lambda>s. c_name (the_container s i))) (\<lambda>name.
     on_container p (\<lambda>c. c\<lparr>c_containers := AList.update name i (c_containers c)\<rparr>)))"

definition addFile :: "64 word \<Rightarrow> 64 word \<Rightarrow> unit action" where
  "addFile p i =
     bnd (on_file i (\<lambda>f. f\<lparr>f_container := p\<rparr>)) (\<lambda>_.
     bnd (read (\<lambda>s. f_name (the_file s i))) (\<lambda>name.
     on_container p (\<lambda>c. c\<lparr>c_files := AList.update name i (c_files c)\<rparr>)))"

definition renameContainer :: "64 word \<Rightarrow> string \<Rightarrow> unit action" where
  "renameContainer i name =
     bnd (read (\<lambda>s. the_container s i)) (\<lambda>c.
     bnd (removeContainer (c_parent c) (c_name c)) (\<lambda>_.
     bnd (on_container i (\<lambda>c. c\<lparr>c_name := name\<rparr>)) (\<lambda>_.
     addContainer (c_parent c) i)))"

definition renameFile :: "64 word \<Rightarrow> string \<Rightarrow> unit action" where
  "renameFile i name =
     bnd (read (\<lambda>s. the_file s i)) (\<lambda>f.
     bnd (removeFile (f_container f) (f_name f)) (\<lambda>_.
     bnd (on_file i (\<lambda>f. f\<lparr>f_name := name\<rparr>)) (\<lambda>_.
     addFile (f_container f) i)))"

definition hasAttribute :: "xattrs \<Rightarrow> string \<Rightarrow> bool" where
  "hasAttribute attrs k \<longleftrightarrow> k \<in> fst ` set attrs"

definition getAttribute :: "64 word \<Rightarrow> string \<Rightarrow> string action" where
  "getAttribute i k s =
     (case map_of (f_attrs (the_file s i)) k of
        None \<Rightarrow> (Inl (MDException ENOENT ''Attribute not found''), s)
      | Some v \<Rightarrow> (Inr v, s))"

definition setAttribute :: "string \<Rightarrow> string \<Rightarrow> xattrs \<Rightarrow> xattrs" where
  "setAttribute k v attrs = AList.update k v attrs"

definition unlinkAllLocations :: "FileMD \<Rightarrow> FileMD" where
  "unlinkAllLocations f = f\<lparr>f_unlinked := f_unlinked f @ f_locations f, f_locations := []\<rparr>"

subsection \<open>Permission checks of the request handler\<close>

text \<open>\<^verbatim>\<open>std::string::find\<close> as a test: the second string occurs in the first.\<close>

fun contains :: "string \<Rightarrow> string \<Rightarrow> bool" where
  "contains [] m = (m = [])"
| "contains (c # cs) m = (take (length m) (c # cs) = m \<or> contains cs m)"

text \<open>
  \<^verbatim>\<open>FuseServer::ValidatePERM\<close>: the permissions are derived again from the parent
  container of the request. A container that does not exist makes the lookup throw, which
  the function answers with false. The path of the container is computed for the log only.
\<close>

definition ValidatePERM :: "env \<Rightarrow> md \<Rightarrow> string \<Rightarrow> vid \<Rightarrow> server \<Rightarrow> bool" where
  "ValidatePERM e m mode v s =
     (case containers s (md_pino m) of
        None \<Rightarrow> False
      | Some cmd \<Rightarrow>
          (let r_ok = access e cmd (vid_uid v) (vid_gid v) R_OK;
               w_ok = access e cmd (vid_uid v) (vid_gid v) W_OK;
               d_ok = w_ok;
               x_ok = access e cmd (vid_uid v) (vid_gid v) X_OK;
               a = Acl e (c_attrs cmd) v;
               w_ok1 = (if HasAcl a \<and> CanWrite a then True else w_ok);
               d_ok1 = (if HasAcl a \<and> CanWrite a then True else d_ok);
               w_ok2 = (if HasAcl a \<and> \<not> (CanWrite a \<or> CanWriteOnce a) then False else w_ok1);
               d_ok2 = (if HasAcl a \<and> CanNotDelete a then False else d_ok1);
               r_ok1 = (if HasAcl a \<and> CanRead a then True else r_ok);
               x_ok1 = (if HasAcl a \<and> CanBrowse a then True else x_ok);
               w_ok3 = (if HasAcl a \<and> \<not> IsMutable a then False else w_ok2);
               d_ok3 = (if HasAcl a \<and> \<not> IsMutable a then False else d_ok2);
               accperm = ''R'' @ (if r_ok1 then ''R'' else []) @ (if w_ok3 then ''WCKNV'' else [])
                           @ (if d_ok3 then ''D'' else [])
           in contains accperm mode))"

text \<open>
  The test at the head of \<^verbatim>\<open>SET\<close> and of \<^verbatim>\<open>DELETE\<close>: the capability, or, when the
  capability is missing, bound to another inode or timed out, the permissions of the
  parent. False makes the handler return \<open>EPERM\<close>.
\<close>

definition cap_or_perm :: "env \<Rightarrow> md \<Rightarrow> 32 word \<Rightarrow> string \<Rightarrow> vid \<Rightarrow> 64 word \<Rightarrow> server \<Rightarrow> bool" where
  "cap_or_perm e m mode perm v now s =
     (case ValidateCAP (cap_store s) m mode now of
        (errno, Null) \<Rightarrow>
          (errno = ENOENT \<or> errno = EINVAL \<or> errno = ETIMEDOUT) \<and> ValidatePERM e m perm v s
      | (errno, cap) \<Rightarrow> True)"

text \<open>\<^verbatim>\<open>Caps::Imply\<close>: the child capability copied from the parent's, with a fresh lease.\<close>

definition Imply :: "Clients \<Rightarrow> timespec \<Rightarrow> inode \<Rightarrow> authid_t \<Rightarrow> authid_t \<Rightarrow> Caps \<Rightarrow> bool \<times> Caps" where
  "Imply cl ts ino authid implied_authid s =
     (let cap = Get_cap s authid
      in if cap_id cap = 0 \<or> implied_authid = [] then (False, s)
         else
          (let lt = leasetime cl (cap_clientuuid cap);
               implied_cap = cap\<lparr>cap_authid := implied_authid, cap_id := ino,
                  vtime := tv_sec ts + (if lt \<noteq> 0 then of_nat lt else 300),
                  vtime_ns := tv_nsec ts\<rparr>
           in (True,
               s\<lparr>mTimeOrderedCap :=
                    multimap_insert (vtime implied_cap, implied_authid) (mTimeOrderedCap s),
                 mClientCaps := (mClientCaps s)(cap_clientid cap \<mapsto>
                    set_insert implied_authid (at_key (mClientCaps s) (cap_clientid cap))),
                 mClientInoCaps := (mClientInoCaps s)(cap_clientid cap \<mapsto>
                    set_insert ino (at_key (mClientInoCaps s) (cap_clientid cap))),
                 mCaps := (mCaps s)(implied_authid \<mapsto> implied_cap),
                 mInodeCaps := (mInodeCaps s)(ino \<mapsto>
                    set_insert implied_authid (at_key (mInodeCaps s) ino))\<rparr>)))"

subsection \<open>The request handler: SET\<close>

text \<open>The file type tests of sys/stat.h on the mode of the request.\<close>

definition S_ISDIR :: "32 word \<Rightarrow> bool" where "S_ISDIR m \<longleftrightarrow> (m AND 61440) = 16384"
definition S_ISREG :: "32 word \<Rightarrow> bool" where "S_ISREG m \<longleftrightarrow> (m AND 61440) = 32768"
definition S_ISFIFO :: "32 word \<Rightarrow> bool" where "S_ISFIFO m \<longleftrightarrow> (m AND 61440) = 4096"
definition S_ISLNK :: "32 word \<Rightarrow> bool" where "S_ISLNK m \<longleftrightarrow> (m AND 61440) = 40960"

abbreviation S_ISGID :: "32 word" where "S_ISGID \<equiv> 1024"
abbreviation S_IRWXUGO :: "32 word" where "S_IRWXUGO \<equiv> 511"

datatype set_type = CREATE | UPDATE | RENAME | MOVE

text \<open>
  The broadcasts a request ends with, in their order. The clock of the metadata object,
  which \<^verbatim>\<open>BroadcastMD\<close> passes on, is not modelled.
\<close>

datatype bcast =
    BcRelease md
  | BcMD md inode inode ctime_t
  | BcDeletion "64 word" md string

text \<open>
  What a call of the handler leaves: its return code, or the standard exception that
  leaves it; the response written, if any; the broadcasts; the state.
\<close>

record outcome =
  o_rc :: "std_exception + int"
  o_response :: "response option"
  o_bcasts :: "bcast list"
  o_server :: server

definition ack_OK :: "md \<Rightarrow> inode \<Rightarrow> response" where
  "ack_OK m ino = ACK \<lparr>ack_code = OK, ack_transactionid = md_reqid m, ack_err_no = 0,
     ack_err_msg = [], ack_md_ino = ino\<rparr>"

definition ack_FAILURE :: "md \<Rightarrow> int \<Rightarrow> string \<Rightarrow> response" where
  "ack_FAILURE m err msg = ACK \<lparr>ack_code = PERMANENT_FAILURE, ack_transactionid = md_reqid m,
     ack_err_no = err, ack_err_msg = msg, ack_md_ino = 0\<rparr>"

text \<open>
  The end of each \<^verbatim>\<open>try\<close> block of the handler: the value it falls through with carries
  the response written, if any, and the broadcasts, and the handler returns 0; a \<^verbatim>\<open>return\<close> inside the block leaves the handler with
  that code and nothing written; \<^verbatim>\<open>catch (eos::MDException& e)\<close> writes the failure
  acknowledgement and the handler returns 0.
\<close>

definition finish :: "md \<Rightarrow> (exit + response option \<times> bcast list) \<times> server \<Rightarrow> outcome" where
  "finish m r =
     (case r of
        (Inr (resp, bcs), s) \<Rightarrow>
          \<lparr>o_rc = Inr 0, o_response = resp, o_bcasts = bcs, o_server = s\<rparr>
      | (Inl (Return code), s) \<Rightarrow>
          \<lparr>o_rc = Inr code, o_response = None, o_bcasts = [], o_server = s\<rparr>
      | (Inl (MDException err msg), s) \<Rightarrow>
          \<lparr>o_rc = Inr 0, o_response = Some (ack_FAILURE m err msg), o_bcasts = [], o_server = s\<rparr>
      | (Inl (StdException x), s) \<Rightarrow>
          \<lparr>o_rc = Inl x, o_response = None, o_bcasts = [], o_server = s\<rparr>)"

text \<open>The target of a move or rename that exists already is removed.\<close>

definition remove_existing_file :: "64 word \<Rightarrow> string \<Rightarrow> unit action" where
  "remove_existing_file pcmd name =
     bnd (findFile pcmd name) (\<lambda>ofmd.
       case ofmd of
         None \<Rightarrow> ret ()
       | Some old \<Rightarrow>
           ignore_MDException
             (bnd (removeFile pcmd name) (\<lambda>_. removeFileMD old)))"

text \<open>\<^verbatim>\<open>SET\<close> of a directory: the move of an existing directory to another parent.\<close>

definition SET_dir_move :: "env \<Rightarrow> vid \<Rightarrow> md \<Rightarrow> 64 word \<Rightarrow> 64 word \<Rightarrow> set_type action" where
  "SET_dir_move e v m cmd pcmd =
     bnd (read (\<lambda>s. c_parent (the_container s cmd))) (\<lambda>parent.
     bnd (read (ValidatePERM e (default_md\<lparr>md_pino := parent, md_mode := 16384\<rparr>) ''W'' v)) (\<lambda>ok.
     if \<not> ok then leave (Return EPERM)
     else
     bnd (getContainerMD parent) (\<lambda>cpcmd.
     bnd (read (\<lambda>s. c_name (the_container s cmd))) (\<lambda>name.
     bnd (removeContainer cpcmd name) (\<lambda>_.
     bnd (on_container cmd (\<lambda>c. c\<lparr>c_name := md_name m\<rparr>)) (\<lambda>_.
     bnd (ignore_MDException
           (bnd (findContainer pcmd (md_name m)) (\<lambda>exist_target_cmd.
              case exist_target_cmd of
                None \<Rightarrow> ret ()
              | Some t \<Rightarrow>
                  bnd (read (\<lambda>s. length (c_files (the_container s t))
                                 + length (c_containers (the_container s t)))) (\<lambda>n.
                  if n \<noteq> 0 then leave (Return ENOTEMPTY)
                  else bnd (removeContainerMD t) (\<lambda>_. removeContainer pcmd (md_name m)))))) (\<lambda>_.
     bnd (addContainer pcmd cmd) (\<lambda>_.
     ret MOVE))))))))"

definition SET_dir_existing :: "env \<Rightarrow> vid \<Rightarrow> md
    \<Rightarrow> (set_type \<times> 64 word \<times> 64 word \<times> inode \<times> 32 word) action" where
  "SET_dir_existing e v m =
     (if md_implied_authid m \<noteq> [] then leave (Return EEXIST)
      else
      bnd (getContainerMD (md_ino m)) (\<lambda>cmd.
      bnd (getContainerMD (md_pino m)) (\<lambda>pcmd.
      bnd (read (\<lambda>s. c_parent (the_container s cmd))) (\<lambda>parent.
      bnd (if parent \<noteq> md_pino m then SET_dir_move e v m cmd pcmd else ret UPDATE) (\<lambda>op.
      bnd (read (\<lambda>s. c_name (the_container s cmd))) (\<lambda>name.
      bnd (if name \<noteq> md_name m
           then bnd (renameContainer cmd (md_name m)) (\<lambda>_. ret RENAME)
           else ret op) (\<lambda>op.
      bnd (read (\<lambda>s. c_mode (the_container s pcmd))) (\<lambda>pmode.
      ret (op, cmd, pcmd, md_ino m, if (pmode AND S_ISGID) \<noteq> 0 then S_ISGID else 0)))))))))"

definition SET_dir_create :: "env \<Rightarrow> Clients \<Rightarrow> timespec \<Rightarrow> md
    \<Rightarrow> (set_type \<times> 64 word \<times> 64 word \<times> inode \<times> 32 word) action" where
  "SET_dir_create e cl ts m =
     bnd (getContainerMD (md_pino m)) (\<lambda>pcmd.
     if take (length (atomic_file_prefix e)) (md_name m) = atomic_file_prefix e
     then leave (Return EPERM)
     else
     bnd (findContainer pcmd (md_name m)) (\<lambda>found.
     if md_type m = EXCL \<and> found \<noteq> None then leave (Return EEXIST)
     else
     bnd (read (\<lambda>s. c_attrs (the_container s pcmd))) (\<lambda>xattrs.
     bnd createContainer (\<lambda>cmd.
     bnd (on_container cmd (\<lambda>c. c\<lparr>c_name := md_name m\<rparr>)) (\<lambda>_.
     bnd (addContainer pcmd cmd) (\<lambda>_.
     bnd (update (\<lambda>s. s\<lparr>cap_store :=
            snd (Imply cl ts cmd (md_authid m) (md_implied_authid m) (cap_store s))\<rparr>)) (\<lambda>_.
     bnd (on_container cmd (\<lambda>c. c\<lparr>c_attrs :=
            fold (\<lambda>elem. setAttribute (fst elem) (snd elem)) xattrs (c_attrs c)\<rparr>)) (\<lambda>_.
     ret (CREATE, cmd, pcmd, cmd, S_ISGID)))))))))"

text \<open>The birth time as it is stored: seconds and nanoseconds with a dot between.\<close>

definition btime_string :: "md \<Rightarrow> string" where
  "btime_string m = to_string (uint (md_btime m)) @ ''.'' @ to_string (uint (md_btime_ns m))"

definition SET_dir_body :: "env \<Rightarrow> Clients \<Rightarrow> timespec \<Rightarrow> vid \<Rightarrow> md
    \<Rightarrow> (response option \<times> bcast list) action" where
  "SET_dir_body e cl ts v m =
     (if md_ino m \<noteq> 0 \<and> md_type m = EXCL then leave (Return EEXIST)
      else
      bnd (if md_ino m \<noteq> 0 then SET_dir_existing e v m else SET_dir_create e cl ts m)
        (\<lambda>(op, cmd, pcmd, ino, sgid_mode).
      bnd (on_container cmd (\<lambda>c. c\<lparr>c_name := md_name m, c_uid := md_uid m, c_gid := md_gid m,
             c_mode := md_mode m OR sgid_mode, c_ctime := (md_ctime m, md_ctime_ns m),
             c_mtime := (md_mtime m, md_mtime_ns m)\<rparr>)) (\<lambda>_.
      bnd (on_container cmd (\<lambda>c. c\<lparr>c_attrs :=
             fold (\<lambda>it attrs. if take 3 (fst it) \<noteq> ''sys'' \<or> fst it = ''sys.eos.btime''
                               then setAttribute (fst it) (snd it) attrs else attrs)
               (md_attr m) (c_attrs c)\<rparr>)) (\<lambda>_.
      bnd (on_container cmd (\<lambda>c.
             if op \<noteq> CREATE \<and> length (c_attrs c) \<noteq> length (md_attr m)
             then c\<lparr>c_attrs := filter (\<lambda>it. fst it \<in> fst ` set (md_attr m)) (c_attrs c)\<rparr>
             else c)) (\<lambda>_.
      bnd (on_container cmd (\<lambda>c.
             if op = CREATE
             then c\<lparr>c_attrs := setAttribute ''sys.eos.btime'' (btime_string m) (c_attrs c)\<rparr>
             else c)) (\<lambda>_.
      bnd (on_container pcmd (\<lambda>c.
             if op \<noteq> UPDATE \<and> md_pmtime m \<noteq> 0
             then c\<lparr>c_mtime := (md_pmtime m, md_pmtime_ns m)\<rparr> else c)) (\<lambda>_.
      ret (Some (ack_OK m ino),
           (if op = MOVE then [BcRelease (default_md\<lparr>md_authid := md_mv_authid m\<rparr>)] else [])
             @ [BcRelease m]))))))))"

text \<open>
  \<^verbatim>\<open>SET\<close> of a regular file or fifo. An existing file is updated, renamed or moved; the
  move has no check of the parent the file leaves.
\<close>

definition SET_file_existing :: "env \<Rightarrow> md \<Rightarrow> (set_type \<times> 64 word \<times> 64 word \<times> inode) action" where
  "SET_file_existing e m =
     bnd (getFileMD (InodeToFid e (md_ino m))) (\<lambda>fmd.
     bnd (getContainerMD (md_pino m)) (\<lambda>pcmd.
     bnd (read (\<lambda>s. the_file s fmd)) (\<lambda>f.
     if f_container f \<noteq> md_pino m
     then
       bnd (getContainerMD (f_container f)) (\<lambda>cpcmd.
       bnd (removeFile cpcmd (f_name f)) (\<lambda>_.
       bnd (on_file fmd (\<lambda>f. f\<lparr>f_name := md_name m\<rparr>)) (\<lambda>_.
       bnd (remove_existing_file pcmd (md_name m)) (\<lambda>_.
       bnd (addFile pcmd fmd) (\<lambda>_.
       ret (MOVE, fmd, pcmd, md_ino m))))))
     else if f_name f \<noteq> md_name m
     then
       bnd (remove_existing_file pcmd (md_name m)) (\<lambda>_.
       bnd (renameFile fmd (md_name m)) (\<lambda>_.
       ret (RENAME, fmd, pcmd, md_ino m)))
     else ret (UPDATE, fmd, pcmd, md_ino m))))"

text \<open>
  The creation of a hard link: the count in \<^verbatim>\<open>sys.eos.nlink\<close> of the target is an
  \<^verbatim>\<open>int\<close>; adding 1 to the largest \<^verbatim>\<open>int\<close> overflows and wraps in the compiled
  code, a signed 32-bit sum here. The target inode is \<^verbatim>\<open>atoll\<close> of the string behind the
  prefix, converted to 64 bits unsigned.
\<close>

definition hlnk_target :: "md \<Rightarrow> inode" where
  "hlnk_target m = of_int (atoll (drop 8 (md_target m)))"

definition SET_hardlink :: "env \<Rightarrow> md \<Rightarrow> (response option \<times> bcast list) action" where
  "SET_hardlink e m =
     bnd (getContainerMD (md_pino m)) (\<lambda>pcmd.
     bnd (findContainer pcmd (md_name m)) (\<lambda>found.
     if found \<noteq> None then leave (Return EEXIST)
     else
     bnd (getFileMD (InodeToFid e (hlnk_target m))) (\<lambda>fmd.
     bnd createFile (\<lambda>gmd.
     bnd (read (\<lambda>s. hasAttribute (f_attrs (the_file s fmd)) k_nlink)) (\<lambda>has.
     bnd (if has
          then bnd (getAttribute fmd k_nlink) (\<lambda>a. bnd (lift_std (stoi a)) (\<lambda>n.
                 ret (sint (word_of_int n + 1 :: 32 word))))
          else ret 1) (\<lambda>nlink.
     bnd (on_file fmd (\<lambda>f. f\<lparr>f_attrs := setAttribute k_nlink (to_string nlink) (f_attrs f)\<rparr>)) (\<lambda>_.
     bnd (on_file gmd (\<lambda>f. f\<lparr>f_attrs :=
            setAttribute k_mdino (to_string (uint (hlnk_target m))) (f_attrs f)\<rparr>)) (\<lambda>_.
     bnd (on_file gmd (\<lambda>f. f\<lparr>f_name := md_name m\<rparr>)) (\<lambda>_.
     bnd (addFile pcmd gmd) (\<lambda>_.
     ret (Some (ack_OK m (FidToInode e gmd)),
          [BcMD m (hlnk_target m) (md_pino m) (md_mtime m, md_mtime_ns m)])))))))))))"

definition SET_file_create :: "env \<Rightarrow> vid \<Rightarrow> md \<Rightarrow> 64 word
    \<Rightarrow> (set_type \<times> 64 word \<times> 64 word \<times> inode) action" where
  "SET_file_create e v m pcmd =
     (if take (length (atomic_file_prefix e)) (md_name m) = atomic_file_prefix e
      then leave (Return EPERM)
      else
      bnd (read (\<lambda>s. the_container s pcmd)) (\<lambda>p.
      if out_of_inode_quota e v p then leave (Return EDQUOT)
      else
      bnd createFile (\<lambda>fmd.
      bnd (on_file fmd (\<lambda>f. f\<lparr>f_name := md_name m, f_layout := layoutId e v (c_attrs p)\<rparr>)) (\<lambda>_.
      bnd (addFile pcmd fmd) (\<lambda>_.
      ret (CREATE, fmd, pcmd, FidToInode e fmd))))))"

definition SET_file_body :: "env \<Rightarrow> vid \<Rightarrow> md \<Rightarrow> (response option \<times> bcast list) action" where
  "SET_file_body e v m =
     bnd (getContainerMD (md_pino m)) (\<lambda>pcmd0.
     if md_ino m \<noteq> 0 \<and> md_type m = EXCL then leave (Return EEXIST)
     else if md_ino m = 0 \<and> take 8 (md_target m) = ''////hlnk'' then SET_hardlink e m
     else
     bnd (if md_ino m \<noteq> 0 then SET_file_existing e m else SET_file_create e v m pcmd0)
       (\<lambda>(op, fmd, pcmd, ino).
     bnd (on_file fmd (\<lambda>f. f\<lparr>f_name := md_name m, f_uid := md_uid m, f_gid := md_gid m,
            f_size := md_size m, f_flags := md_mode m AND S_IRWXUGO,
            f_ctime := (md_ctime m, md_ctime_ns m), f_mtime := (md_mtime m, md_mtime_ns m),
            f_attrs := []\<rparr>)) (\<lambda>_.
     bnd (on_container pcmd (\<lambda>c.
            if op \<noteq> UPDATE then c\<lparr>c_mtime := (md_mtime m, md_mtime_ns m)\<rparr> else c)) (\<lambda>_.
     bnd (on_file fmd (\<lambda>f. f\<lparr>f_attrs :=
            fold (\<lambda>it. setAttribute (fst it) (snd it)) (md_attr m) (f_attrs f)\<rparr>)) (\<lambda>_.
     bnd (on_file fmd (\<lambda>f. f\<lparr>f_attrs :=
            setAttribute ''sys.eos.btime'' (btime_string m) (f_attrs f)\<rparr>)) (\<lambda>_.
     bnd (getFileMD (InodeToFid e ino)) (\<lambda>_.
     ret (Some (ack_OK m ino),
          [BcMD m ino (md_pino m)
             (if op \<noteq> UPDATE then (md_mtime m, md_mtime_ns m) else (0, 0))]))))))))"

text \<open>\<^verbatim>\<open>SET\<close> of a symbolic link.\<close>

definition SET_link_body :: "env \<Rightarrow> md \<Rightarrow> (response option \<times> bcast list) action" where
  "SET_link_body e m =
     bnd (getContainerMD (md_pino m)) (\<lambda>pcmd.
     bnd (findFile pcmd (md_name m)) (\<lambda>found.
     if found \<noteq> None \<and> md_type m = EXCL then leave (Return EEXIST)
     else
     bnd (case found of
            Some f \<Rightarrow> ret (UPDATE, f)
          | None \<Rightarrow>
              if take (length (atomic_file_prefix e)) (md_name m) = atomic_file_prefix e
              then leave (Return EPERM)
              else bnd createFile (\<lambda>f. ret (CREATE, f))) (\<lambda>(op, fmd).
     bnd (on_file fmd (\<lambda>f. f\<lparr>f_name := md_name m,
            f_link := (if S_ISLNK (md_mode m) then md_target m else f_link f),
            f_layout := 0\<rparr>)) (\<lambda>_.
     bnd (if op = CREATE then addFile pcmd fmd else ret ()) (\<lambda>_.
     bnd (on_file fmd (\<lambda>f. f\<lparr>f_uid := md_uid m, f_gid := md_gid m,
            f_size := of_nat (length (md_target m)), f_flags := md_mode m AND S_IRWXUGO,
            f_ctime := (md_ctime m, md_ctime_ns m), f_mtime := (md_mtime m, md_mtime_ns m),
            f_attrs := []\<rparr>)) (\<lambda>_.
     bnd (on_file fmd (\<lambda>f.
            if op = CREATE
            then f\<lparr>f_attrs := setAttribute ''sys.eos.btime'' (btime_string m) (f_attrs f)\<rparr>
            else f)) (\<lambda>_.
     bnd (on_container pcmd (\<lambda>c. c\<lparr>c_mtime := (md_mtime m, md_mtime_ns m)\<rparr>)) (\<lambda>_.
     ret (Some (ack_OK m (FidToInode e fmd)),
          [BcMD m (FidToInode e fmd) (md_pino m) (md_mtime m, md_mtime_ns m)])))))))))"

text \<open>
  The block of \<^verbatim>\<open>HandleMD\<close> for \<^verbatim>\<open>SET\<close>. A mode that is none of directory, regular
  file, fifo and link falls through all the blocks to the final \<^verbatim>\<open>return 0\<close>.
\<close>

definition HandleMD_SET :: "env \<Rightarrow> Clients \<Rightarrow> timespec \<Rightarrow> vid \<Rightarrow> md \<Rightarrow> server \<Rightarrow> outcome" where
  "HandleMD_SET e cl ts v m s =
     (if \<not> cap_or_perm e m (W_OK OR SA_OK) ''W'' v (tv_sec ts) s
      then \<lparr>o_rc = Inr EPERM, o_response = None, o_bcasts = [], o_server = s\<rparr>
      else if S_ISDIR (md_mode m) then finish m (SET_dir_body e cl ts v m s)
      else if S_ISREG (md_mode m) \<or> S_ISFIFO (md_mode m) then finish m (SET_file_body e v m s)
      else if S_ISLNK (md_mode m) \<or> S_ISFIFO (md_mode m) then finish m (SET_link_body e m s)
      else \<lparr>o_rc = Inr 0, o_response = None, o_bcasts = [], o_server = s\<rparr>)"

subsection \<open>The request handler: DELETE\<close>

text \<open>\<^verbatim>\<open>snprintf\<close> with \<^verbatim>\<open>%lx\<close>: the hexadecimal digits of a number.\<close>

function to_hex_nat :: "nat \<Rightarrow> string" where
  "to_hex_nat n =
     (if n < 16 then [''0123456789abcdef'' ! n]
      else to_hex_nat (n div 16) @ [''0123456789abcdef'' ! (n mod 16)])"
  by pat_completeness auto
termination
  by (relation "measure id") auto

definition DELETE_done :: "md \<Rightarrow> 64 word \<Rightarrow> string \<Rightarrow> (response option \<times> bcast list) action" where
  "DELETE_done m pcmd name =
     bnd (update (\<lambda>s. s\<lparr>cap_store := snd (Delete (md_ino m) (cap_store s))\<rparr>)) (\<lambda>_.
     ret (Some (ack_OK m 0), [BcRelease m, BcDeletion pcmd m name]))"

definition DELETE_dir :: "md \<Rightarrow> 64 word \<Rightarrow> 64 word \<Rightarrow> (response option \<times> bcast list) action" where
  "DELETE_dir m pcmd cmd =
     bnd (read (\<lambda>s. the_container s cmd)) (\<lambda>c.
     if c_containers c \<noteq> [] \<or> c_files c \<noteq> []
     then ret (Some (ack_FAILURE m ENOTEMPTY ''directory not empty''), [])
     else
     bnd (removeContainer pcmd (c_name c)) (\<lambda>_.
     bnd (removeContainerMD cmd) (\<lambda>_.
     DELETE_done m pcmd (c_name c))))"

text \<open>
  The removal of a file from its directory: \<^verbatim>\<open>removeFile\<close> on the parent,
  \<^verbatim>\<open>setContainerId(0)\<close> and \<^verbatim>\<open>unlinkAllLocations\<close>.
\<close>

definition unlink_file :: "64 word \<Rightarrow> 64 word \<Rightarrow> unit action" where
  "unlink_file pcmd fmd =
     bnd (read (\<lambda>s. f_name (the_file s fmd))) (\<lambda>name.
     bnd (removeFile pcmd name) (\<lambda>_.
     on_file fmd (\<lambda>f. unlinkAllLocations (f\<lparr>f_container := 0\<rparr>))))"

text \<open>
  The hard link part of the deletion of a file; the result is the flag \<^verbatim>\<open>doDelete\<close>.
  The counts are \<^verbatim>\<open>long\<close>: subtracting 1 from the least \<^verbatim>\<open>long\<close> overflows and
  wraps in the compiled code, a signed 64-bit difference here.
\<close>

definition DELETE_hardlinks :: "env \<Rightarrow> 64 word \<Rightarrow> 64 word \<Rightarrow> bool action" where
  "DELETE_hardlinks e pcmd fmd =
     bnd (read (\<lambda>s. f_attrs (the_file s fmd))) (\<lambda>attrs.
     if hasAttribute attrs k_mdino
     then
       bnd (getAttribute fmd k_mdino) (\<lambda>a.
       bnd (lift_std (stoll a)) (\<lambda>tgt_md_ino.
       bnd (getFileMD (InodeToFid e (of_int tgt_md_ino))) (\<lambda>gmd.
       bnd (getAttribute gmd k_nlink) (\<lambda>a.
       bnd (lift_std (stol a)) (\<lambda>n.
       bnd (ret (sint (word_of_int n - 1 :: 64 word))) (\<lambda>nlink.
       bnd (if nlink \<ge> 0
            then on_file gmd (\<lambda>f. f\<lparr>f_attrs := setAttribute k_nlink (to_string nlink) (f_attrs f)\<rparr>)
            else unlink_file pcmd gmd) (\<lambda>_.
       ret True)))))))
     else if hasAttribute attrs k_nlink
     then
       bnd (getAttribute fmd k_nlink) (\<lambda>a.
       bnd (lift_std (stol a)) (\<lambda>n.
       bnd (ret (sint (word_of_int n - 1 :: 64 word))) (\<lambda>nlink.
       if nlink \<ge> 0
       then
         bnd (read (\<lambda>s. ''...eos.ino...'' @ to_hex_nat (unat (f_id (the_file s fmd))))) (\<lambda>tmpName.
         bnd (on_file fmd (\<lambda>f. f\<lparr>f_attrs := setAttribute k_nlink (to_string nlink) (f_attrs f)\<rparr>)) (\<lambda>_.
         bnd (removeFile pcmd tmpName) (\<lambda>_.
         bnd (renameFile fmd tmpName) (\<lambda>_.
         ret False))))
       else ret True)))
     else ret True)"

definition DELETE_file :: "env \<Rightarrow> vid \<Rightarrow> md \<Rightarrow> 64 word \<Rightarrow> 64 word
    \<Rightarrow> (response option \<times> bcast list) action" where
  "DELETE_file e v m pcmd fmd =
     bnd (read (\<lambda>s. (c_attrs (the_container s pcmd), f_attrs (the_file s fmd)))) (\<lambda>(attrmap, attrs).
     bnd (if hasAttribute attrmap (gRecyclingAttribute e) \<and> \<not> hasAttribute attrs k_mdino
             \<and> \<not> hasAttribute attrs k_nlink
          then update (recycle_rem e fmd v)
          else
            bnd (DELETE_hardlinks e pcmd fmd) (\<lambda>doDelete.
            if doDelete then unlink_file pcmd fmd else ret ())) (\<lambda>_.
     DELETE_done m pcmd (md_name m)))"

definition DELETE_link :: "md \<Rightarrow> 64 word \<Rightarrow> 64 word \<Rightarrow> (response option \<times> bcast list) action" where
  "DELETE_link m pcmd fmd =
     bnd (unlink_file pcmd fmd) (\<lambda>_. DELETE_done m pcmd (md_name m))"

definition DELETE_body :: "env \<Rightarrow> vid \<Rightarrow> md \<Rightarrow> (response option \<times> bcast list) action" where
  "DELETE_body e v m =
     bnd (getContainerMD (md_pino m)) (\<lambda>pcmd.
     bnd (if S_ISDIR (md_mode m) then getContainerMD (md_ino m)
          else getFileMD (InodeToFid e (md_ino m))) (\<lambda>obj.
     bnd (on_container pcmd (\<lambda>c. c\<lparr>c_mtime := (md_mtime m, md_mtime_ns m)\<rparr>)) (\<lambda>_.
     if S_ISDIR (md_mode m) then DELETE_dir m pcmd obj
     else if S_ISREG (md_mode m) \<or> S_ISFIFO (md_mode m) then DELETE_file e v m pcmd obj
     else if S_ISLNK (md_mode m) then DELETE_link m pcmd obj
     else ret (None, []))))"

text \<open>The block of \<^verbatim>\<open>HandleMD\<close> for \<^verbatim>\<open>DELETE\<close>.\<close>

definition HandleMD_DELETE :: "env \<Rightarrow> timespec \<Rightarrow> vid \<Rightarrow> md \<Rightarrow> server \<Rightarrow> outcome" where
  "HandleMD_DELETE e ts v m s =
     (if \<not> cap_or_perm e m D_OK ''D'' v (tv_sec ts) s
      then \<lparr>o_rc = Inr EPERM, o_response = None, o_bcasts = [], o_server = s\<rparr>
      else finish m (DELETE_body e v m s))"

subsection \<open>The request handler: the children of a listing\<close>

text \<open>
  The head of \<^verbatim>\<open>FuseServer::FillContainerCAP\<close>: with \<^verbatim>\<open>issue_only_one\<close>, a client
  that has a capability on the inode gets no new one. The rest of the function computes
  the capability from the container, the identity, the ACL and the quota and stores it; the
  computation is the parameter \<open>capability\<close>.
\<close>

definition FillContainerCAP :: "(inode \<Rightarrow> md \<Rightarrow> capx) \<Rightarrow> inode \<Rightarrow> md \<Rightarrow> bool \<Rightarrow> Caps \<Rightarrow> Caps" where
  "FillContainerCAP capability ino dir issue_only_one caps =
     (if issue_only_one \<and> md_clientid dir \<in> dom (mClientInoCaps caps)
         \<and> ino \<in> set (at_key (mClientInoCaps caps) (md_clientid dir))
      then caps
      else Store (capability ino dir) caps)"

text \<open>
  The loop of \<^verbatim>\<open>LS\<close> that attaches the children, given in the order of iteration of the
  children map: the inodes for which \<^verbatim>\<open>FillContainerCAP\<close> is called with
  \<^verbatim>\<open>issue_only_one\<close>, and the capability store after the loop. The metadata of the
  children is filled by code outside this model.
\<close>

fun LS_children :: "env \<Rightarrow> (inode \<Rightarrow> md \<Rightarrow> capx) \<Rightarrow> md \<Rightarrow> (string \<times> inode) list \<Rightarrow> nat \<Rightarrow> Caps
    \<Rightarrow> inode list \<times> Caps" where
  "LS_children e capability m [] n_caps caps = ([], caps)"
| "LS_children e capability m (it # rest) n_caps caps =
     (if IsFileInode e (snd it) then LS_children e capability m rest n_caps caps
      else if n_caps < 16 \<and> take 1 (fst it) = ''.''
      then (let child_md = default_md\<lparr>md_ino := snd it, md_clientuuid := md_clientuuid m,
                    md_clientid := md_clientid m\<rparr>;
                r = LS_children e capability m rest (n_caps + 1)
                      (FillContainerCAP capability (snd it) child_md True caps)
            in (snd it # fst r, snd r))
      else LS_children e capability m rest n_caps caps)"

text \<open>
  An environment for the samples: the inode conversions by a shift of 28 bits, a
  container writable by its owner only, no ACL, no quota limit and no recycle bin.
\<close>

definition no_acl :: acl where
  "no_acl = \<lparr>HasAcl = False, CanRead = False, CanWrite = False, CanWriteOnce = False,
     CanBrowse = False, CanNotDelete = False, IsMutable = True\<rparr>"

definition sample_env :: env where
  "sample_env = \<lparr>IsFileInode = (\<lambda>ino. 268435456 \<le> ino),
     InodeToFid = (\<lambda>ino. drop_bit 28 ino),
     FidToInode = (\<lambda>fid. push_bit 28 fid),
     access = (\<lambda>c uid gid mode. c_uid c = uid),
     Acl = (\<lambda>attrs v. no_acl),
     atomic_file_prefix = ''.sys.a#.'',
     gRecyclingAttribute = ''sys.recycle'',
     out_of_inode_quota = (\<lambda>v c. False),
     layoutId = (\<lambda>v attrs. 0),
     recycle_rem = (\<lambda>fid v s. s)\<rparr>"

text \<open>
  A namespace for the samples: a directory 1 owned by uid 2000, holding the file 5
  (\<open>f\<close>) and the directory 3 (\<open>d\<close>), and a directory 2 owned by uid 1000; the
  requester has uid 1000 and holds no capability.
\<close>

definition two_dirs :: server where
  "two_dirs = \<lparr>containers =
       [1 \<mapsto> (new_ContainerMD 1)\<lparr>c_name := ''src'', c_uid := 2000, c_files := [(''f'', 5)],
                c_containers := [(''d'', 3)]\<rparr>,
        2 \<mapsto> (new_ContainerMD 2)\<lparr>c_name := ''dst'', c_uid := 1000\<rparr>,
        3 \<mapsto> (new_ContainerMD 3)\<lparr>c_name := ''d'', c_parent := 1, c_uid := 1000\<rparr>],
     files = [5 \<mapsto> (new_FileMD 5)\<lparr>f_name := ''f'', f_container := 1, f_uid := 1000\<rparr>],
     next_cid = 10, next_fid = 10, cap_store = empty_Caps\<rparr>"

definition requester :: vid where
  "requester = \<lparr>vid_uid = 1000, vid_gid = 1000, vid_sudoer = False, vid_prot = ''krb5'',
     vid_dn = [], vid_uid_string = ''1000''\<rparr>"

definition move_file_request :: md where
  "move_file_request = default_md\<lparr>md_operation := SET, md_mode := 33188,
     md_ino := 1342177280, md_pino := 2, md_name := ''f'', md_authid := ''a9'', md_reqid := 77\<rparr>"

definition move_dir_request :: md where
  "move_dir_request = default_md\<lparr>md_operation := SET, md_mode := 16877,
     md_ino := 3, md_pino := 2, md_name := ''d'', md_authid := ''a9'', md_reqid := 78\<rparr>"

text \<open>
  For stating how a piece of the handler can end: the codes it can leave the handler with
  by \<^verbatim>\<open>return\<close>, and a property of every value it falls through with.
\<close>

definition returns_in :: "int set \<Rightarrow> 'a action \<Rightarrow> bool" where
  "returns_in C m \<longleftrightarrow> (\<forall>s c s'. m s = (Inl (Return c), s') \<longrightarrow> c \<in> C)"

definition yields :: "('a \<Rightarrow> bool) \<Rightarrow> 'a action \<Rightarrow> bool" where
  "yields P m \<longleftrightarrow> (\<forall>s x s'. m s = (Inr x, s') \<longrightarrow> P x)"

text \<open>The responses a mutation writes: an acknowledgement carrying the request id.\<close>

definition acknowledges :: "md \<Rightarrow> response option \<times> bcast list \<Rightarrow> bool" where
  "acknowledges m r \<longleftrightarrow>
     (case fst r of
        None \<Rightarrow> snd r = []
      | Some (ACK a) \<Rightarrow>
          ack_transactionid a = md_reqid m
          \<and> (ack_code a = OK \<or> (ack_code a = PERMANENT_FAILURE \<and> snd r = []))
      | Some other \<Rightarrow> False)"

definition exclusive_dir_request :: md where
  "exclusive_dir_request = move_dir_request\<lparr>md_type := EXCL\<rparr>"

text \<open>
  What a mutation handler may end with: a non-zero return code is one of the four codes
  of the \<^verbatim>\<open>return\<close> statements and comes with no response and no broadcast; a response
  that is written is an acknowledgement with the request id, and the handler returns 0; a
  failure acknowledgement comes with no broadcast.
\<close>

definition well_answered :: "md \<Rightarrow> outcome \<Rightarrow> bool" where
  "well_answered m out \<longleftrightarrow>
     (\<forall>code. o_rc out = Inr code \<and> code \<noteq> 0 \<longrightarrow>
        code \<in> {EPERM, EEXIST, ENOTEMPTY, EDQUOT} \<and> o_response out = None \<and> o_bcasts out = [])
     \<and> (\<forall>r. o_response out = Some r \<longrightarrow>
          o_rc out = Inr 0
          \<and> (\<exists>a. r = ACK a \<and> ack_transactionid a = md_reqid m
                \<and> (ack_code a = OK \<or> (ack_code a = PERMANENT_FAILURE \<and> o_bcasts out = []))))"

text \<open>
  A namespace with a capability for a directory 99 that does not exist, and a request of
  its holder for an entry of that directory.
\<close>

definition capped_ns :: server where
  "capped_ns = two_dirs\<lparr>cap_store :=
     Store ((cap_of ''a7'' ''u1'')\<lparr>cap_id := 99, cap_mode := 255\<rparr>) empty_Caps\<rparr>"

definition orphan_request :: md where
  "orphan_request = default_md\<lparr>md_operation := DELETE, md_mode := 33188,
     md_ino := 1342177280, md_pino := 99, md_name := ''f'', md_authid := ''a7'', md_reqid := 79\<rparr>"

subsection \<open>Hard links\<close>







section \<open>Properties\<close>

subsection \<open>Lookup of capabilities\<close>

lemma Get_cap_Some: "mCaps s a = Some c \<Longrightarrow> Get_cap s a = c"
  by (simp add: Get_cap_def Get_def dom_def)

lemma Get_cap_None: "mCaps s a = None \<Longrightarrow> Get_cap s a = default_capx"
  by (simp add: Get_cap_def Get_def dom_def)

lemmas sample_defs = one_cap_store_def three_cap_store_def Store_def empty_Caps_def cap_of_def
  default_capx_def default_quota_def at_key_def set_insert_def default_md_def

text \<open>
  Claim C9. \<open>Get\<close> is total and never returns the null pointer. For an auth-id in the
  store it returns the shared object stored under it; for any other auth-id it returns a
  freshly allocated default capability, whose inode, mode and vtime are 0. A caller such
  as \<open>ValidateCAP\<close> sees the miss as inode 0 and reports \<open>ENOENT\<close> with a null result.
\<close>

theorem Get_total_never_null:
  "Get s a \<noteq> Null
   \<and> (\<forall>c. mCaps s a = Some c \<longrightarrow> Get s a = Stored a \<and> deref s (Get s a) = Some c)
   \<and> (mCaps s a = None \<longrightarrow> Get s a = Fresh \<and> deref s (Get s a) = Some default_capx)
   \<and> cap_id default_capx = 0 \<and> cap_mode default_capx = 0 \<and> vtime default_capx = 0
   \<and> (mCaps s (md_authid m) = None \<longrightarrow> ValidateCAP s m mode now = (ENOENT, Null))"
  by (auto simp: Get_def default_capx_def ValidateCAP_def Get_cap_None dom_def)

text \<open>The claim at a store holding one capability, for its auth-id and for an unknown one.\<close>

theorem Get_total_never_null_witness:
  "mCaps one_cap_store ''a1'' = Some (cap_of ''a1'' ''u1'')
   \<and> Get one_cap_store ''a1'' = Stored ''a1''
   \<and> mCaps one_cap_store ''a2'' = None
   \<and> Get one_cap_store ''a2'' = Fresh
   \<and> ValidateCAP one_cap_store (default_md\<lparr>md_authid := ''a2'', md_pino := 5\<rparr>) 66 100
       = (ENOENT, Null)"
  using Get_total_never_null [of one_cap_store "''a1''"
      "default_md\<lparr>md_authid := ''a2'', md_pino := 5\<rparr>" 66 100]
    Get_total_never_null [of one_cap_store "''a2''"
      "default_md\<lparr>md_authid := ''a2'', md_pino := 5\<rparr>" 66 100]
  by (simp add: sample_defs)

subsection \<open>Validation of a capability\<close>

text \<open>
  Claim C1, as the code has it. \<open>ValidateCAP\<close> looks at one capability only, the one
  stored under the auth-id of the request. It succeeds (returns a non-null pointer, which
  is then that stored object, with errno 0) if and only if this capability exists, has a
  non-zero inode equal to the inode or the parent inode of the request, grants every bit
  of the required mode, and has a vtime strictly greater than now + 60 in 64-bit unsigned
  arithmetic. When this capability passes the inode and mode tests and its vtime is at
  most now + 60, the call fails with \<open>ETIMEDOUT\<close>.
\<close>

theorem ValidateCAP_by_authid:
  "(snd (ValidateCAP s m mode now) \<noteq> Null \<longleftrightarrow>
      (\<exists>c. mCaps s (md_authid m) = Some c \<and> cap_id c \<noteq> 0
          \<and> (cap_id c = md_ino m \<or> cap_id c = md_pino m)
          \<and> (cap_mode c AND mode) = mode \<and> now + 60 < vtime c))
   \<and> (snd (ValidateCAP s m mode now) \<noteq> Null \<longrightarrow>
        ValidateCAP s m mode now = (0, Stored (md_authid m)))
   \<and> (\<forall>c. mCaps s (md_authid m) = Some c \<and> cap_id c \<noteq> 0
          \<and> (cap_id c = md_ino m \<or> cap_id c = md_pino m)
          \<and> (cap_mode c AND mode) = mode \<and> vtime c \<le> now + 60
        \<longrightarrow> ValidateCAP s m mode now = (ETIMEDOUT, Null))"
proof (cases "mCaps s (md_authid m)")
  case None
  then show ?thesis
    by (simp add: ValidateCAP_def Get_cap_None default_capx_def)
next
  case (Some c)
  then have g: "Get_cap s (md_authid m) = c" and p: "Get s (md_authid m) = Stored (md_authid m)"
    by (simp_all add: Get_cap_Some Get_def dom_def)
  show ?thesis
    unfolding ValidateCAP_def Let_def g p using Some
    by (auto simp: not_le)
qed

text \<open>The stored capability expires at 1000: valid at time 100, timed out at time 940.\<close>

theorem ValidateCAP_by_authid_witness:
  "snd (ValidateCAP one_cap_store (default_md\<lparr>md_authid := ''a1'', md_pino := 5\<rparr>) 66 100) \<noteq> Null
   \<and> ValidateCAP one_cap_store (default_md\<lparr>md_authid := ''a1'', md_pino := 5\<rparr>) 66 100
       = (0, Stored ''a1'')
   \<and> mCaps one_cap_store ''a1'' = Some (cap_of ''a1'' ''u1'')
   \<and> vtime (cap_of ''a1'' ''u1'') \<le> 940 + 60
   \<and> ValidateCAP one_cap_store (default_md\<lparr>md_authid := ''a1'', md_pino := 5\<rparr>) 66 940
       = (ETIMEDOUT, Null)"
  using ValidateCAP_by_authid [of one_cap_store "default_md\<lparr>md_authid := ''a1'', md_pino := 5\<rparr>" 66 100]
    ValidateCAP_by_authid [of one_cap_store "default_md\<lparr>md_authid := ''a1'', md_pino := 5\<rparr>" 66 940]
  by (simp add: sample_defs)

text \<open>
  The claim as stated quantifies over every capability of the store. A store holding a
  capability with all the properties under another auth-id than the one of the request
  does not make the call succeed.
\<close>

theorem ValidateCAP_other_authid_counterexample:
  "mCaps one_cap_store ''a1'' = Some (cap_of ''a1'' ''u1'')
   \<and> cap_id (cap_of ''a1'' ''u1'') = md_pino (default_md\<lparr>md_authid := ''a2'', md_pino := 5\<rparr>)
   \<and> (cap_mode (cap_of ''a1'' ''u1'') AND (W_OK OR SA_OK)) = (W_OK OR SA_OK)
   \<and> (100::64 word) + 60 < vtime (cap_of ''a1'' ''u1'')
   \<and> ValidateCAP one_cap_store (default_md\<lparr>md_authid := ''a2'', md_pino := 5\<rparr>)
        (W_OK OR SA_OK) 100 = (ENOENT, Null)"
  by (simp add: sample_defs ValidateCAP_def Get_cap_def Get_def)

subsection \<open>Recipients of a broadcast\<close>

lemma set_set_insert [simp]: "set (set_insert x xs) = insert x (set xs)"
  by (simp add: set_insert_def set_insort_key insert_absorb)

lemma set_set_erase [simp]: "set (set_erase x xs) = set xs - {x}"
  by (simp add: set_erase_def)

lemma set_release_loop:
  "set (release_loop s m refcap auths)
     = {c. \<exists>a \<in> set auths. mCaps s a = Some c \<and> cap_authid c \<noteq> md_authid m
             \<and> cap_clientuuid c \<noteq> cap_clientuuid refcap \<and> cap_id c \<noteq> 0}"
  by (induction auths) (auto split: option.splits)

lemma md_loop_subset:
  "set (md_loop s m refcap sent auths)
     \<subseteq> {c. \<exists>a \<in> set auths. mCaps s a = Some c \<and> cap_authid c \<noteq> md_authid m
             \<and> cap_clientuuid c \<noteq> cap_clientuuid refcap \<and> cap_id c \<noteq> 0}"
  by (induction auths arbitrary: sent) (auto split: option.splits)

lemma md_loop_uuids:
  "cap_clientuuid ` set (md_loop s m refcap sent auths)
     = cap_clientuuid ` {c. \<exists>a \<in> set auths. mCaps s a = Some c \<and> cap_authid c \<noteq> md_authid m
             \<and> cap_clientuuid c \<noteq> cap_clientuuid refcap \<and> cap_id c \<noteq> 0} - set sent"
proof (induction auths arbitrary: sent)
  case Nil
  then show ?case by simp
next
  case (Cons it rest)
  show ?case
  proof (cases "mCaps s it")
    case None
    then show ?thesis using Cons.IH[of sent] by auto
  next
    case (Some cap)
    then show ?thesis
      using Cons.IH[of sent] Cons.IH[of "set_insert (cap_clientuuid cap) sent"]
      by (auto simp: image_iff)
  qed
qed

lemma md_loop_distinct:
  "distinct (map cap_clientuuid (md_loop s m refcap sent auths))"
proof (induction auths arbitrary: sent)
  case Nil
  then show ?case by simp
next
  case (Cons it rest)
  show ?case
  proof (cases "mCaps s it")
    case None
    then show ?thesis using Cons.IH by simp
  next
    case (Some cap)
    have "cap_clientuuid cap \<notin> cap_clientuuid ` set (md_loop s m refcap (set_insert (cap_clientuuid cap) sent) rest)"
      unfolding md_loop_uuids by simp
    then show ?thesis using Some Cons.IH by (simp add: image_iff)
  qed
qed

text \<open>The vectors \<^verbatim>\<open>bccaps\<close> of the two broadcasts.\<close>

lemma bccaps_recipients:
  "set (BroadcastRelease_bccaps s m)
     = subscribers s (release_inode s m) (md_authid m) (cap_clientuuid (Get_cap s (md_authid m)))
   \<and> set (BroadcastMD_bccaps s m pino)
     \<subseteq> subscribers s pino (md_authid m) (cap_clientuuid (Get_cap s (md_authid m)))
   \<and> cap_clientuuid ` set (BroadcastMD_bccaps s m pino)
     = cap_clientuuid ` subscribers s pino (md_authid m) (cap_clientuuid (Get_cap s (md_authid m)))
   \<and> distinct (map cap_clientuuid (BroadcastMD_bccaps s m pino))"
proof -
  let ?ref = "Get_cap s (md_authid m)"
  have sub: "subscribers s i (md_authid m) (cap_clientuuid ?ref)
      = {c. \<exists>a \<in> set (at_key (mInodeCaps s) i). mCaps s a = Some c
            \<and> cap_authid c \<noteq> md_authid m \<and> cap_clientuuid c \<noteq> cap_clientuuid ?ref
            \<and> cap_id c \<noteq> 0}" for i
    by (simp add: subscribers_def)
  have rel: "set (BroadcastRelease_bccaps s m)
      = set (release_loop s m ?ref (at_key (mInodeCaps s) (release_inode s m)))"
    by (simp add: BroadcastRelease_bccaps_def at_key_def split: option.splits)
  have bmd: "BroadcastMD_bccaps s m pino = md_loop s m ?ref [] (at_key (mInodeCaps s) pino)"
    by (simp add: BroadcastMD_bccaps_def at_key_def split: option.splits)
  have 1: "set (BroadcastRelease_bccaps s m)
     = subscribers s (release_inode s m) (md_authid m) (cap_clientuuid ?ref)"
    unfolding rel sub by (rule set_release_loop)
  have 2: "set (BroadcastMD_bccaps s m pino)
     \<subseteq> subscribers s pino (md_authid m) (cap_clientuuid ?ref)"
    unfolding bmd sub by (rule md_loop_subset)
  have 3: "cap_clientuuid ` set (BroadcastMD_bccaps s m pino)
     = cap_clientuuid ` subscribers s pino (md_authid m) (cap_clientuuid ?ref)"
    unfolding bmd sub using md_loop_uuids[of s m ?ref "[]"] by simp
  have 4: "distinct (map cap_clientuuid (BroadcastMD_bccaps s m pino))"
    unfolding bmd by (rule md_loop_distinct)
  from 1 2 3 4 show ?thesis by blast
qed

lemmas eval_defs = sample_defs BroadcastMD_bccaps_def BroadcastRelease_bccaps_def release_inode_def
  Get_cap_def Get_def

text \<open>The messages of the two broadcasts.\<close>

lemma set_BroadcastRelease_msgs:
  "set (BroadcastRelease cl s m)
     = {(ident, LEASE_RELEASECAP (cap_id c) (cap_clientid c)) | c ident.
          c \<in> set (BroadcastRelease_bccaps s m) \<and> mUUIDView cl (cap_clientuuid c) = Some ident}"
  by (auto simp: BroadcastRelease_def ReleaseCAP_def split: option.splits)

lemma length_sends:
  "length (concat (map (\<lambda>it. case v (u it) of None \<Rightarrow> [] | Some ident \<Rightarrow> [g ident it]) xs))
     = length (filter (\<lambda>it. u it \<in> dom v) xs)"
  by (induction xs) (auto split: option.splits)

lemma length_BroadcastRelease:
  "length (BroadcastRelease cl s m)
     = length (filter (\<lambda>c. cap_clientuuid c \<in> dom (mUUIDView cl)) (BroadcastRelease_bccaps s m))"
proof -
  have "BroadcastRelease cl s m
      = concat (map (\<lambda>it. case mUUIDView cl (cap_clientuuid it) of None \<Rightarrow> []
                   | Some ident \<Rightarrow> [(ident, LEASE_RELEASECAP (cap_id it) (cap_clientid it))])
          (BroadcastRelease_bccaps s m))"
    unfolding BroadcastRelease_def ReleaseCAP_def
    by (intro arg_cong[where f = concat] map_cong refl) (simp split: option.splits)
  then show ?thesis
    using length_sends[where v = "mUUIDView cl" and u = cap_clientuuid
        and g = "\<lambda>ident it. (ident, LEASE_RELEASECAP (cap_id it) (cap_clientid it))"]
    by simp
qed

lemma set_BroadcastMD_msgs:
  "set (BroadcastMD cl s m ino pino clock pt)
     = {(ident, MD_update (SendMD_rsp m (cap_clientid c) ino pino clock pt)) | c ident.
          c \<in> set (BroadcastMD_bccaps s m pino) \<and> mUUIDView cl (cap_clientuuid c) = Some ident}"
  by (auto simp: BroadcastMD_def SendMD_def split: option.splits)

lemma length_BroadcastMD:
  "length (BroadcastMD cl s m ino pino clock pt)
     = length (filter (\<lambda>c. cap_clientuuid c \<in> dom (mUUIDView cl)) (BroadcastMD_bccaps s m pino))"
proof -
  have "BroadcastMD cl s m ino pino clock pt
      = concat (map (\<lambda>it. case mUUIDView cl (cap_clientuuid it) of None \<Rightarrow> []
                   | Some ident \<Rightarrow> [(ident, MD_update (SendMD_rsp m (cap_clientid it) ino pino clock pt))])
          (BroadcastMD_bccaps s m pino))"
    unfolding BroadcastMD_def SendMD_def
    by (intro arg_cong[where f = concat] map_cong refl) (simp split: option.splits)
  then show ?thesis
    using length_sends[where v = "mUUIDView cl" and u = cap_clientuuid
        and g = "\<lambda>ident it. (ident, MD_update (SendMD_rsp m (cap_clientid it) ino pino clock pt))"]
    by simp
qed

lemma release_loop_authids:
  assumes "\<forall>a c. mCaps s a = Some c \<longrightarrow> cap_authid c = a" and "distinct auths"
  shows "distinct (map cap_authid (release_loop s m refcap auths))
       \<and> set (map cap_authid (release_loop s m refcap auths)) \<subseteq> set auths"
  using assms(2)
proof (induction auths)
  case Nil
  then show ?case by simp
next
  case (Cons a auths)
  then show ?case
    using assms(1) by (auto split: option.splits)
qed

lemma distinct_release_loop:
  assumes "\<forall>a c. mCaps s a = Some c \<longrightarrow> cap_authid c = a" and "distinct auths"
  shows "distinct (release_loop s m refcap auths)"
  using release_loop_authids[OF assms] by (simp add: distinct_map)

lemma card_filter_distinct:
  "distinct xs \<Longrightarrow> length (filter P xs) = card {x \<in> set xs. P x}"
  by (metis distinct_card distinct_filter set_filter)

lemma card_filter_distinct_map:
  assumes "distinct (map f xs)"
  shows "length (filter (\<lambda>x. P (f x)) xs) = card {u \<in> f ` set xs. P u}"
proof -
  have "length (filter (\<lambda>x. P (f x)) xs) = length (filter P (map f xs))"
    by (simp add: filter_map comp_def)
  also have "\<dots> = card {u \<in> set (map f xs). P u}"
    using assms by (rule card_filter_distinct)
  finally show ?thesis by simp
qed

text \<open>
  Claim C2, as the code has it. Let the mutation originate from the capability stored under
  the auth-id of the request, owned by a client uuid, and take the capabilities listed
  under the inode in the inode index that are held in the primary map with a non-zero
  inode, whose auth-id differs from the originating one and whose client uuid differs from
  the originator's. \<open>BroadcastRelease\<close> sends a release message for exactly those of them
  whose client uuid is in the uuid view, to the identity registered there, with the inode
  and the client id of the capability; with distinct auth-ids in the index, each stored
  under its own key, that is one message for each such capability. A capability whose uuid
  is not registered receives nothing. \<open>BroadcastMD\<close> sends updates only for capabilities
  of that set with a registered uuid: one message for each registered client uuid
  occurring in the set, and no more messages than that.
\<close>

theorem broadcast_recipients:
  "set (BroadcastRelease cl s m)
     = {(ident, LEASE_RELEASECAP (cap_id c) (cap_clientid c)) | c ident.
          c \<in> subscribers s (release_inode s m) (md_authid m)
                 (cap_clientuuid (Get_cap s (md_authid m)))
          \<and> mUUIDView cl (cap_clientuuid c) = Some ident}
   \<and> (distinct (at_key (mInodeCaps s) (release_inode s m))
        \<and> (\<forall>a c. mCaps s a = Some c \<longrightarrow> cap_authid c = a)
      \<longrightarrow> length (BroadcastRelease cl s m)
          = card {c \<in> subscribers s (release_inode s m) (md_authid m)
                        (cap_clientuuid (Get_cap s (md_authid m))).
                  cap_clientuuid c \<in> dom (mUUIDView cl)})
   \<and> set (BroadcastMD cl s m ino pino clock pt)
     \<subseteq> {(ident, MD_update (SendMD_rsp m (cap_clientid c) ino pino clock pt)) | c ident.
          c \<in> subscribers s pino (md_authid m) (cap_clientuuid (Get_cap s (md_authid m)))
          \<and> mUUIDView cl (cap_clientuuid c) = Some ident}
   \<and> (\<forall>c \<in> subscribers s pino (md_authid m) (cap_clientuuid (Get_cap s (md_authid m))).
        \<forall>ident. mUUIDView cl (cap_clientuuid c) = Some ident \<longrightarrow>
          (\<exists>c' \<in> subscribers s pino (md_authid m) (cap_clientuuid (Get_cap s (md_authid m))).
             cap_clientuuid c' = cap_clientuuid c
             \<and> (ident, MD_update (SendMD_rsp m (cap_clientid c') ino pino clock pt))
                 \<in> set (BroadcastMD cl s m ino pino clock pt)))
   \<and> length (BroadcastMD cl s m ino pino clock pt)
     = card {u \<in> cap_clientuuid ` subscribers s pino (md_authid m)
                    (cap_clientuuid (Get_cap s (md_authid m))).
             u \<in> dom (mUUIDView cl)}"
proof -
  let ?u0 = "cap_clientuuid (Get_cap s (md_authid m))"
  let ?R = "subscribers s (release_inode s m) (md_authid m) ?u0"
  let ?M = "subscribers s pino (md_authid m) ?u0"
  note bc = bccaps_recipients[of s m pino]
  have r: "set (BroadcastRelease_bccaps s m) = ?R"
    and m1: "set (BroadcastMD_bccaps s m pino) \<subseteq> ?M"
    and m2: "cap_clientuuid ` set (BroadcastMD_bccaps s m pino) = cap_clientuuid ` ?M"
    and m3: "distinct (map cap_clientuuid (BroadcastMD_bccaps s m pino))"
    using bc by blast+
  have 1: "set (BroadcastRelease cl s m)
     = {(ident, LEASE_RELEASECAP (cap_id c) (cap_clientid c)) | c ident.
          c \<in> ?R \<and> mUUIDView cl (cap_clientuuid c) = Some ident}"
    unfolding set_BroadcastRelease_msgs r ..
  have 2: "length (BroadcastRelease cl s m)
          = card {c \<in> ?R. cap_clientuuid c \<in> dom (mUUIDView cl)}"
    if d: "distinct (at_key (mInodeCaps s) (release_inode s m))"
      and k: "\<forall>a c. mCaps s a = Some c \<longrightarrow> cap_authid c = a"
  proof -
    have "BroadcastRelease_bccaps s m
        = release_loop s m (Get_cap s (md_authid m)) (at_key (mInodeCaps s) (release_inode s m))"
      by (simp add: BroadcastRelease_bccaps_def at_key_def split: option.splits)
    then have "distinct (BroadcastRelease_bccaps s m)"
      using distinct_release_loop[OF k d] by simp
    then show ?thesis
      unfolding length_BroadcastRelease r[symmetric] by (rule card_filter_distinct)
  qed
  have 3: "set (BroadcastMD cl s m ino pino clock pt)
     \<subseteq> {(ident, MD_update (SendMD_rsp m (cap_clientid c) ino pino clock pt)) | c ident.
          c \<in> ?M \<and> mUUIDView cl (cap_clientuuid c) = Some ident}"
    unfolding set_BroadcastMD_msgs using m1 by blast
  have 4: "\<exists>c' \<in> ?M. cap_clientuuid c' = cap_clientuuid c
             \<and> (ident, MD_update (SendMD_rsp m (cap_clientid c') ino pino clock pt))
                 \<in> set (BroadcastMD cl s m ino pino clock pt)"
    if c: "c \<in> ?M" and v: "mUUIDView cl (cap_clientuuid c) = Some ident" for c ident
  proof -
    have "cap_clientuuid c \<in> cap_clientuuid ` set (BroadcastMD_bccaps s m pino)"
      unfolding m2 using c by (rule imageI)
    then obtain c' where c': "c' \<in> set (BroadcastMD_bccaps s m pino)"
      and e: "cap_clientuuid c' = cap_clientuuid c" by auto
    have "(ident, MD_update (SendMD_rsp m (cap_clientid c') ino pino clock pt))
        \<in> set (BroadcastMD cl s m ino pino clock pt)"
      unfolding set_BroadcastMD_msgs using c' e v by auto
    then show ?thesis using c' e m1 by blast
  qed
  have 5: "length (BroadcastMD cl s m ino pino clock pt)
     = card {u \<in> cap_clientuuid ` ?M. u \<in> dom (mUUIDView cl)}"
    unfolding length_BroadcastMD m2[symmetric]
    using m3 by (rule card_filter_distinct_map)
  from 1 2 3 4 5 show ?thesis by blast
qed

lemmas send_defs = BroadcastRelease_def BroadcastMD_def ReleaseCAP_def SendMD_def one_session_def
  silent_heartbeat_def default_heartbeat_def sample_Clients_def

text \<open>
  Three capabilities on inode 5: the originator's, and two of one other mount, which is
  registered.
\<close>

theorem broadcast_recipients_witness:
  "BroadcastRelease (one_session silent_heartbeat ONLINE) three_cap_store
       (default_md\<lparr>md_authid := ''a0''\<rparr>)
     = [(''id1'', LEASE_RELEASECAP 5 ''id-u1''), (''id1'', LEASE_RELEASECAP 5 ''id-u1'')]
   \<and> card {c \<in> subscribers three_cap_store 5 ''a0'' ''u0''.
            cap_clientuuid c \<in> dom (mUUIDView (one_session silent_heartbeat ONLINE))} = 2
   \<and> BroadcastMD (one_session silent_heartbeat ONLINE) three_cap_store
       (default_md\<lparr>md_authid := ''a0''\<rparr>) 5 5 0 \<lparr>tv_sec = 7, tv_nsec = 0\<rparr>
     = [(''id1'', MD_update (SendMD_rsp (default_md\<lparr>md_authid := ''a0''\<rparr>) ''id-u1'' 5 5 0
           \<lparr>tv_sec = 7, tv_nsec = 0\<rparr>))]
   \<and> card {u \<in> cap_clientuuid ` subscribers three_cap_store 5 ''a0'' ''u0''.
            u \<in> dom (mUUIDView (one_session silent_heartbeat ONLINE))} = 1
   \<and> (\<exists>c' \<in> subscribers three_cap_store 5 ''a0'' ''u0''. cap_clientuuid c' = ''u1''
        \<and> (''id1'', MD_update (SendMD_rsp (default_md\<lparr>md_authid := ''a0''\<rparr>) (cap_clientid c')
              5 5 0 \<lparr>tv_sec = 7, tv_nsec = 0\<rparr>))
           \<in> set (BroadcastMD (one_session silent_heartbeat ONLINE) three_cap_store
                 (default_md\<lparr>md_authid := ''a0''\<rparr>) 5 5 0 \<lparr>tv_sec = 7, tv_nsec = 0\<rparr>))"
proof -
  let ?cl = "one_session silent_heartbeat ONLINE"
  let ?m = "default_md\<lparr>md_authid := ''a0''\<rparr>"
  let ?pt = "\<lparr>tv_sec = 7, tv_nsec = 0\<rparr>"
  note main = broadcast_recipients [of ?cl three_cap_store ?m 5 5 0 ?pt]
  have i: "release_inode three_cap_store ?m = 5" "md_authid ?m = ''a0''"
    "cap_clientuuid (Get_cap three_cap_store ''a0'') = ''u0''"
    by (simp_all add: eval_defs)
  have d: "distinct (at_key (mInodeCaps three_cap_store) 5)"
    by (simp add: eval_defs)
  have k: "\<forall>a c. mCaps three_cap_store a = Some c \<longrightarrow> cap_authid c = a"
    by (simp add: eval_defs)
  have r: "BroadcastRelease ?cl three_cap_store ?m
     = [(''id1'', LEASE_RELEASECAP 5 ''id-u1''), (''id1'', LEASE_RELEASECAP 5 ''id-u1'')]"
    by (simp add: eval_defs send_defs)
  have b: "BroadcastMD ?cl three_cap_store ?m 5 5 0 ?pt
     = [(''id1'', MD_update (SendMD_rsp ?m ''id-u1'' 5 5 0 ?pt))]"
    by (simp add: eval_defs send_defs)
  have "length (BroadcastRelease ?cl three_cap_store ?m)
      = card {c \<in> subscribers three_cap_store 5 ''a0'' ''u0''.
            cap_clientuuid c \<in> dom (mUUIDView ?cl)}"
    by (rule main[THEN conjunct2, THEN conjunct1, unfolded i, rule_format, OF conjI[OF d k]])
  then have c1: "card {c \<in> subscribers three_cap_store 5 ''a0'' ''u0''.
            cap_clientuuid c \<in> dom (mUUIDView ?cl)} = 2"
    unfolding r by simp
  have "length (BroadcastMD ?cl three_cap_store ?m 5 5 0 ?pt)
      = card {u \<in> cap_clientuuid ` subscribers three_cap_store 5 ''a0'' ''u0''.
            u \<in> dom (mUUIDView ?cl)}"
    by (rule main[THEN conjunct2, THEN conjunct2, THEN conjunct2, THEN conjunct2, unfolded i])
  then have c2: "card {u \<in> cap_clientuuid ` subscribers three_cap_store 5 ''a0'' ''u0''.
            u \<in> dom (mUUIDView ?cl)} = 1"
    unfolding b by simp
  have s2: "cap_of ''a2'' ''u1'' \<in> subscribers three_cap_store 5 ''a0'' ''u0''"
    by (simp add: subscribers_def eval_defs)
  have v: "mUUIDView ?cl (cap_clientuuid (cap_of ''a2'' ''u1'')) = Some ''id1''"
    by (simp add: send_defs cap_of_def)
  have u: "cap_clientuuid (cap_of ''a2'' ''u1'') = ''u1''"
    by (simp add: cap_of_def)
  have e: "\<exists>c' \<in> subscribers three_cap_store 5 ''a0'' ''u0''. cap_clientuuid c' = ''u1''
        \<and> (''id1'', MD_update (SendMD_rsp ?m (cap_clientid c') 5 5 0 ?pt))
           \<in> set (BroadcastMD ?cl three_cap_store ?m 5 5 0 ?pt)"
    using main[THEN conjunct2, THEN conjunct2, THEN conjunct2, THEN conjunct1, unfolded i,
        rule_format, OF s2 v]
    unfolding u .
  show ?thesis
    by (intro conjI r c1 b c2 e)
qed

text \<open>
  The claim as stated makes every capability of the set a recipient. Two capabilities of
  one mount are in the set and one update is sent; with no mount registered the release
  is sent to nobody.
\<close>

theorem BroadcastMD_one_per_mount_counterexample:
  "''a1'' \<in> set (at_key (mInodeCaps three_cap_store) 5)
   \<and> mCaps three_cap_store ''a1'' = Some (cap_of ''a1'' ''u1'')
   \<and> ''a2'' \<in> set (at_key (mInodeCaps three_cap_store) 5)
   \<and> mCaps three_cap_store ''a2'' = Some (cap_of ''a2'' ''u1'')
   \<and> cap_of ''a1'' ''u1'' \<noteq> cap_of ''a2'' ''u1''
   \<and> cap_authid (cap_of ''a1'' ''u1'') \<noteq> ''a0'' \<and> cap_authid (cap_of ''a2'' ''u1'') \<noteq> ''a0''
   \<and> cap_clientuuid (Get_cap three_cap_store ''a0'') = ''u0''
   \<and> length (BroadcastMD (one_session silent_heartbeat ONLINE) three_cap_store
        (default_md\<lparr>md_authid := ''a0''\<rparr>) 5 5 0 \<lparr>tv_sec = 7, tv_nsec = 0\<rparr>) = 1
   \<and> BroadcastRelease sample_Clients three_cap_store (default_md\<lparr>md_authid := ''a0''\<rparr>) = []"
  by (simp add: eval_defs send_defs)

subsection \<open>Deleting the capabilities of an inode\<close>

lemma Delete_step_keeps [simp]:
  "mInodeCaps (Delete_step i a s) = mInodeCaps s"
  "mTimeOrderedCap (Delete_step i a s) = mTimeOrderedCap s"
  by (simp_all add: Delete_step_def Let_def split: option.splits)

lemma Delete_step_mCaps [simp]:
  "mCaps (Delete_step i a s) = (mCaps s)(a := None)"
  by (auto simp: Delete_step_def Let_def split: option.splits)

lemma Delete_step_mClientCaps [simp]:
  "mClientCaps (Delete_step i a s) = (\<lambda>c. map_option (set_erase a) (mClientCaps s c))"
  by (simp add: Delete_step_def Let_def split: option.splits)

lemma Delete_step_mClientInoCaps_mono:
  "set (at_key (mClientInoCaps (Delete_step i a s)) cl) \<subseteq> set (at_key (mClientInoCaps s) cl)"
  by (auto simp: Delete_step_def Let_def at_key_def split: option.splits)

lemma Delete_step_mClientInoCaps_erased:
  "mCaps s a = Some c \<Longrightarrow> i \<notin> set (at_key (mClientInoCaps (Delete_step i a s)) (cap_clientid c))"
  by (auto simp: Delete_step_def Let_def at_key_def split: option.splits)

lemma fold_Delete_step_keeps [simp]:
  "mInodeCaps (fold (Delete_step i) as s) = mInodeCaps s"
  "mTimeOrderedCap (fold (Delete_step i) as s) = mTimeOrderedCap s"
  by (induction as arbitrary: s) simp_all

lemma fold_Delete_step_mCaps:
  "mCaps (fold (Delete_step i) as s) a = (if a \<in> set as then None else mCaps s a)"
  by (induction as arbitrary: s) auto

lemma fold_Delete_step_mClientCaps:
  "set (at_key (mClientCaps (fold (Delete_step i) as s)) cl) = set (at_key (mClientCaps s) cl) - set as"
proof (induction as arbitrary: s)
  case Nil
  then show ?case by simp
next
  case (Cons a as)
  have "set (at_key (mClientCaps (Delete_step i a s)) cl) = set (at_key (mClientCaps s) cl) - {a}"
    by (auto simp: at_key_def split: option.splits)
  then show ?case using Cons.IH[of "Delete_step i a s"] by auto
qed

lemma fold_Delete_step_mClientInoCaps_mono:
  "set (at_key (mClientInoCaps (fold (Delete_step i) as s)) cl) \<subseteq> set (at_key (mClientInoCaps s) cl)"
proof (induction as arbitrary: s)
  case Nil
  then show ?case by simp
next
  case (Cons a as)
  show ?case
    using Cons.IH[of "Delete_step i a s"] Delete_step_mClientInoCaps_mono[of i a s cl]
    by auto
qed

lemma fold_Delete_step_mClientInoCaps_erased:
  "a \<in> set as \<Longrightarrow> mCaps s a = Some c
    \<Longrightarrow> i \<notin> set (at_key (mClientInoCaps (fold (Delete_step i) as s)) (cap_clientid c))"
proof (induction as arbitrary: s)
  case Nil
  then show ?case by simp
next
  case (Cons b as)
  show ?case
  proof (cases "b = a")
    case True
    have "i \<notin> set (at_key (mClientInoCaps (Delete_step i a s)) (cap_clientid c))"
      using Cons.prems(2) by (rule Delete_step_mClientInoCaps_erased)
    then show ?thesis
      using True fold_Delete_step_mClientInoCaps_mono[of i as "Delete_step i a s" "cap_clientid c"]
      by auto
  next
    case False
    then have "a \<in> set as" and "mCaps (Delete_step i b s) a = Some c"
      using Cons.prems by auto
    then show ?thesis using Cons.IH[of "Delete_step i b s"] by simp
  qed
qed

lemma at_key_simps [simp]:
  "m k = None \<Longrightarrow> at_key m k = []"
  "m k = Some xs \<Longrightarrow> at_key m k = xs"
  "at_key (m(k \<mapsto> xs)) k = xs"
  "k' \<noteq> k \<Longrightarrow> at_key (m(k \<mapsto> xs)) k' = at_key m k'"
  by (simp_all add: at_key_def)

lemma caps_indexedD:
  "caps_indexed s \<Longrightarrow> mCaps s a = Some c \<Longrightarrow> a \<in> set (at_key (mInodeCaps s) (cap_id c))"
  by (simp add: caps_indexed_def)

lemma caps_indexed_empty: "caps_indexed empty_Caps"
  by (simp add: caps_indexed_def empty_Caps_def)

lemma caps_indexed_Store:
  assumes "caps_indexed s"
  shows "caps_indexed (Store ecap s)"
  unfolding caps_indexed_def
proof (intro allI impI)
  fix a c assume h: "mCaps (Store ecap s) a = Some c"
  show "a \<in> set (at_key (mInodeCaps (Store ecap s)) (cap_id c))"
  proof (cases "a = cap_authid ecap")
    case True
    then have "c = ecap" using h by (simp add: Store_def)
    then show ?thesis using True by (simp add: Store_def)
  next
    case False
    then have "mCaps s a = Some c" using h by (simp add: Store_def)
    then have "a \<in> set (at_key (mInodeCaps s) (cap_id c))"
      using assms by (rule caps_indexedD[rotated])
    then show ?thesis
      by (cases "cap_id c = cap_id ecap") (simp_all add: Store_def)
  qed
qed

text \<open>
  Claim C3, as the code has it. In a store where every capability of the primary map is
  listed in the inode index under its own inode (as \<open>Store\<close> establishes and \<open>Delete\<close>
  keeps), after \<open>Delete i\<close> returns: no capability with inode \<open>i\<close> is left in the primary
  map; the inode index has no entry for \<open>i\<close>; the auth-id of every capability that had
  inode \<open>i\<close> is in no client's capability set, and \<open>i\<close> is not in the inode set of that
  capability's client. The time-ordered expiry index is left as it was.
\<close>

theorem Delete_removes_caps_of_inode:
  assumes inv: "caps_indexed s" and del: "Delete i s = (rc, s')"
  shows "(\<forall>a c. mCaps s' a = Some c \<longrightarrow> cap_id c \<noteq> i)
    \<and> mInodeCaps s' i = None
    \<and> (\<forall>a c cl. mCaps s a = Some c \<and> cap_id c = i \<longrightarrow>
          a \<notin> set (at_key (mClientCaps s') cl)
          \<and> i \<notin> set (at_key (mClientInoCaps s') (cap_clientid c)))
    \<and> mTimeOrderedCap s' = mTimeOrderedCap s
    \<and> caps_indexed s'"
proof (cases "mInodeCaps s i")
  case None
  then have s': "s' = s" using del by (simp add: Delete_def)
  have no: "cap_id c \<noteq> i" if "mCaps s a = Some c" for a c
    using caps_indexedD[OF inv that] None by auto
  show ?thesis using None no inv by (auto simp: s')
next
  case (Some auths)
  let ?f = "fold (Delete_step i) auths s"
  have s': "s' = ?f\<lparr>mInodeCaps := (mInodeCaps ?f)(i := None)\<rparr>"
    using del Some by (simp add: Delete_def Let_def)
  have listed: "a \<in> set auths" if "mCaps s a = Some c" "cap_id c = i" for a c
    using caps_indexedD[OF inv that(1)] that(2) Some by simp
  have 1: "cap_id c \<noteq> i" if "mCaps s' a = Some c" for a c
    using that listed by (auto simp: s' fold_Delete_step_mCaps split: if_splits)
  have 2: "mInodeCaps s' i = None" by (simp add: s')
  have 3: "a \<notin> set (at_key (mClientCaps s') cl)" if "mCaps s a = Some c" "cap_id c = i" for a c cl
    using listed[OF that] by (simp add: s' fold_Delete_step_mClientCaps)
  have 4: "i \<notin> set (at_key (mClientInoCaps s') (cap_clientid c))"
    if "mCaps s a = Some c" "cap_id c = i" for a c
    using fold_Delete_step_mClientInoCaps_erased[OF listed[OF that] that(1), of i] by (simp add: s')
  have 5: "mTimeOrderedCap s' = mTimeOrderedCap s" by (simp add: s')
  have 6: "caps_indexed s'"
    unfolding caps_indexed_def
  proof (intro allI impI)
    fix a c assume h: "mCaps s' a = Some c"
    then have "mCaps s a = Some c" "a \<notin> set auths"
      by (auto simp: s' fold_Delete_step_mCaps split: if_splits)
    moreover have "cap_id c \<noteq> i" using 1 h by blast
    ultimately show "a \<in> set (at_key (mInodeCaps s') (cap_id c))"
      using caps_indexedD[OF inv, of a c] by (simp add: s' at_key_def)
  qed
  from 1 2 3 4 5 6 show ?thesis by blast
qed

lemma caps_indexed_one: "caps_indexed one_cap_store"
  unfolding one_cap_store_def by (intro caps_indexed_Store caps_indexed_empty)

lemmas delete_defs = Delete_def Delete_step_def set_erase_def

theorem Delete_removes_caps_of_inode_witness:
  "caps_indexed one_cap_store
   \<and> fst (Delete 5 one_cap_store) = 0
   \<and> mCaps one_cap_store ''a1'' = Some (cap_of ''a1'' ''u1'')
   \<and> cap_id (cap_of ''a1'' ''u1'') = 5
   \<and> mCaps (snd (Delete 5 one_cap_store)) ''a1'' = None
   \<and> mInodeCaps (snd (Delete 5 one_cap_store)) 5 = None
   \<and> ''a1'' \<notin> set (at_key (mClientCaps (snd (Delete 5 one_cap_store))) ''id-u1'')
   \<and> 5 \<notin> set (at_key (mClientInoCaps (snd (Delete 5 one_cap_store))) ''id-u1'')
   \<and> mTimeOrderedCap (snd (Delete 5 one_cap_store)) = mTimeOrderedCap one_cap_store"
  using Delete_removes_caps_of_inode [OF caps_indexed_one, of 5 "fst (Delete 5 one_cap_store)"
      "snd (Delete 5 one_cap_store)"] caps_indexed_one
  by (simp add: sample_defs delete_defs)

text \<open>
  The claim as stated includes the expiry index: the entry of a deleted capability stays
  there after a successful \<open>Delete\<close>.
\<close>

theorem Delete_leaves_expiry_index_counterexample:
  "cap_id (cap_of ''a1'' ''u1'') = 5
   \<and> Delete 5 one_cap_store = (0, snd (Delete 5 one_cap_store))
   \<and> mTimeOrderedCap (snd (Delete 5 one_cap_store)) = [(vtime (cap_of ''a1'' ''u1''), ''a1'')]"
  by (simp add: sample_defs delete_defs)

subsection \<open>Lifetime extensions of a heartbeat\<close>

lemma extend_cap_indices [simp]:
  "mClientCaps (extend_cap it caps) = mClientCaps caps"
  "mClientInoCaps (extend_cap it caps) = mClientInoCaps caps"
  "mInodeCaps (extend_cap it caps) = mInodeCaps caps"
  "mTimeOrderedCap (extend_cap it caps) = mTimeOrderedCap caps"
  by (simp_all add: extend_cap_def split: shared_cap.splits option.splits)












subsection \<open>The heartbeat sweep\<close>














text \<open>The two deleting loops.\<close>

lemma erase_evicted_fields [simp]:
  "mMap (erase_evicted e cl) = filter (\<lambda>it. fst it \<noteq> snd e) (mMap cl)"
  "mUUIDView (erase_evicted e cl) = (mUUIDView cl)(fst e := None)"
  by (simp_all add: erase_evicted_def map_erase_def)








lemma map_of_distinct_member:
  "distinct (map fst xs) \<Longrightarrow> (k, v) \<in> set xs \<Longrightarrow> map_of xs k = Some v"
  by simp








text \<open>The scenario of one client that sends a heartbeat at time 0 and then stops, with windows 5, 30 and 120.\<close>

lemmas pass_defs = MonitorHeartBeat_pass_def heartbeat_round_def empty_sweep_def erase_evicted_def
  evict_version_def Evict_def map_erase_def one_session_def sample_Clients_def
  silent_heartbeat_def default_heartbeat_def last_heartbeat_def Let_def


lemma pass_at_10:
  "MonitorHeartBeat_pass 2 \<lparr>tv_sec = 10, tv_nsec = 0\<rparr> (one_session silent_heartbeat ONLINE)
     = (one_session silent_heartbeat VOLATILE, [], [])"
  by (simp add: pass_defs)

lemma pass_at_40:
  "MonitorHeartBeat_pass 2 \<lparr>tv_sec = 40, tv_nsec = 0\<rparr> (one_session silent_heartbeat VOLATILE)
     = (one_session silent_heartbeat OFFLINE, [''u1''], [])"
  by (simp add: pass_defs)

lemma pass_at_41:
  "MonitorHeartBeat_pass 2 \<lparr>tv_sec = 41, tv_nsec = 0\<rparr> (one_session silent_heartbeat OFFLINE)
     = (one_session silent_heartbeat OFFLINE, [], [])"
  by (simp add: pass_defs)


lemma pass_old_version:
  "MonitorHeartBeat_pass 2 \<lparr>tv_sec = 1, tv_nsec = 0\<rparr>
      (one_session (silent_heartbeat\<lparr>hb_protversion := 1\<rparr>) ONLINE)
     = (sample_Clients, [], [(''id1'', EVICT_msg versionerror)])"
  by (simp add: pass_defs)





subsection \<open>Decimal strings\<close>

text \<open>Parsing the decimal string of a number gives the number back.\<close>

declare to_string_nat.simps [simp del]















subsection \<open>Running the pieces of the handler\<close>

lemma bnd_ret [simp]: "bnd (ret x) f = f x"
  by (rule ext) (simp add: bnd_def ret_def)

lemma bnd_leave [simp]: "bnd (leave x) f = leave x"
  by (rule ext) (simp add: bnd_def leave_def)

lemma bnd_update [simp]: "bnd (update g) f s = f () (g s)"
  by (simp add: bnd_def update_def)

lemma bnd_read [simp]: "bnd (read g) f s = f (g s) s"
  by (simp add: bnd_def read_def)

lemma bnd_assoc: "bnd (bnd m f) g = bnd m (\<lambda>x. bnd (f x) g)"
  by (rule ext) (simp add: bnd_def split: prod.splits sum.splits)

lemma bnd_Inl: "m s = (Inl x, s') \<Longrightarrow> bnd m f s = (Inl x, s')"
  by (simp add: bnd_def)

lemma bnd_Inr: "m s = (Inr x, s') \<Longrightarrow> bnd m f s = f x s'"
  by (simp add: bnd_def)

lemma bnd_on_container [simp]:
  "bnd (on_container i g) f s
     = f () (s\<lparr>containers := (containers s)(i := map_option g (containers s i))\<rparr>)"
  by (simp add: on_container_def)

lemma bnd_on_file [simp]:
  "bnd (on_file i g) f s = f () (s\<lparr>files := (files s)(i := map_option g (files s i))\<rparr>)"
  by (simp add: on_file_def)

lemma bnd_getContainerMD:
  "bnd (getContainerMD i) f s =
     (case containers s i of
        None \<Rightarrow> (Inl (MDException ENOENT ''No such container''), s)
      | Some c \<Rightarrow> f i s)"
  by (simp add: bnd_def getContainerMD_def split: option.splits)

lemma bnd_getFileMD:
  "bnd (getFileMD i) f s =
     (case files s i of
        None \<Rightarrow> (Inl (MDException ENOENT ''No such file''), s)
      | Some c \<Rightarrow> f i s)"
  by (simp add: bnd_def getFileMD_def split: option.splits)

lemma bnd_getAttribute:
  "bnd (getAttribute i k) f s =
     (case map_of (f_attrs (the_file s i)) k of
        None \<Rightarrow> (Inl (MDException ENOENT ''Attribute not found''), s)
      | Some v \<Rightarrow> f v s)"
  by (simp add: bnd_def getAttribute_def split: option.splits)

lemma bnd_lift_std:
  "bnd (lift_std r) f s = (case r of Inl x \<Rightarrow> (Inl (StdException x), s) | Inr v \<Rightarrow> f v s)"
  by (simp add: lift_std_def leave_def split: sum.splits)

lemma bnd_createFile:
  "bnd createFile f s =
     f (next_fid s) (s\<lparr>files := (files s)(next_fid s \<mapsto> new_FileMD (next_fid s)),
                      next_fid := next_fid s + 1\<rparr>)"
  by (simp add: bnd_def createFile_def)

lemma bnd_createContainer:
  "bnd createContainer f s =
     f (next_cid s) (s\<lparr>containers := (containers s)(next_cid s \<mapsto> new_ContainerMD (next_cid s)),
                      next_cid := next_cid s + 1\<rparr>)"
  by (simp add: bnd_def createContainer_def)

lemmas run_defs = bnd_getContainerMD bnd_getFileMD bnd_getAttribute bnd_lift_std bnd_createFile
  bnd_createContainer findContainer_def findFile_def removeContainer_def removeFile_def
  addContainer_def addFile_def renameContainer_def renameFile_def removeContainerMD_def
  removeFileMD_def the_container_def the_file_def hasAttribute_def setAttribute_def
  ret_def leave_def bnd_assoc

subsection \<open>Implicit capabilities of a listing\<close>

declare to_hex_nat.simps [simp del]

lemma LS_children_at_most_16:
  "length (fst (LS_children e capability m children n caps)) \<le> 16 - n"
proof (induction children arbitrary: n caps)
  case Nil
  then show ?case by simp
next
  case (Cons it rest)
  show ?case
  proof (cases "\<not> IsFileInode e (snd it) \<and> n < 16 \<and> take 1 (fst it) = ''.''")
    case True
    let ?caps = "FillContainerCAP capability (snd it)
      (default_md\<lparr>md_ino := snd it, md_clientuuid := md_clientuuid m, md_clientid := md_clientid m\<rparr>)
      True caps"
    have "length (fst (LS_children e capability m rest (n + 1) ?caps)) \<le> 16 - (n + 1)"
      by (rule Cons.IH)
    moreover have "n < 16" using True by simp
    ultimately have "Suc (length (fst (LS_children e capability m rest (n + 1) ?caps))) \<le> 16 - n"
      by arith
    then show ?thesis using True by (simp add: Let_def)
  next
    case False
    then show ?thesis using Cons.IH[of n caps] by auto
  qed
qed

lemma LS_children_hidden_only:
  "x \<in> set (fst (LS_children e capability m children n caps)) \<Longrightarrow>
   \<exists>name. (name, x) \<in> set children \<and> \<not> IsFileInode e x \<and> take 1 name = ''.''"
proof (induction children arbitrary: n caps)
  case Nil
  then show ?case by simp
next
  case (Cons it rest)
  show ?case
  proof (cases "\<not> IsFileInode e (snd it) \<and> n < 16 \<and> take 1 (fst it) = ''.''")
    case True
    let ?caps = "FillContainerCAP capability (snd it)
      (default_md\<lparr>md_ino := snd it, md_clientuuid := md_clientuuid m, md_clientid := md_clientid m\<rparr>)
      True caps"
    from Cons.prems True
    have "x = snd it \<or> x \<in> set (fst (LS_children e capability m rest (n + 1) ?caps))"
      by (simp add: Let_def)
    then show ?thesis
    proof
      assume "x = snd it"
      then have "(fst it, x) \<in> set (it # rest)" by simp
      then show ?thesis using True \<open>x = snd it\<close> by blast
    next
      assume "x \<in> set (fst (LS_children e capability m rest (n + 1) ?caps))"
      then obtain name where "(name, x) \<in> set rest" "\<not> IsFileInode e x" "take 1 name = ''.''"
        using Cons.IH by blast
      then show ?thesis by auto
    qed
  next
    case False
    then have "x \<in> set (fst (LS_children e capability m rest n caps))"
      using Cons.prems by (auto split: if_splits)
    then obtain name where "(name, x) \<in> set rest" "\<not> IsFileInode e x" "take 1 name = ''.''"
      using Cons.IH by blast
    then show ?thesis by auto
  qed
qed

text \<open>
  Claim C7 asks for implicit capabilities on the first 16 sub-directories that are not
  hidden. The loop issues at most 16, as the two lemmas above say, but only for children
  whose name begins with a dot: the test that the comment announces as skipping hidden
  directories selects them. In a listing with a hidden and a visible sub-directory, the
  hidden one alone gets a capability.
\<close>

theorem LS_caps_go_to_hidden_directories:
  "fst (LS_children sample_env capability m [(''.hidden'', 11), (''visible'', 12)] 0 caps) = [11]"
  by (simp add: sample_env_def)

subsection \<open>Moves between directories\<close>

lemmas handler_defs = HandleMD_SET_def HandleMD_DELETE_def cap_or_perm_def ValidateCAP_def
  Get_cap_def Get_def ValidatePERM_def S_ISDIR_def S_ISREG_def S_ISFIFO_def S_ISLNK_def
  finish_def Let_def ignore_MDException_def remove_existing_file_def ack_OK_def ack_FAILURE_def

lemmas sample_ns_defs = two_dirs_def empty_Caps_def default_capx_def default_md_def
  sample_env_def no_acl_def requester_def new_FileMD_def new_ContainerMD_def sample_Clients_def

text \<open>
  The move of a directory is refused with \<open>EPERM\<close>, before any change and with no response
  or broadcast, when the requester may not write to the parent the directory leaves.
\<close>

lemma dir_move_checks_source:
  "HandleMD_SET sample_env sample_Clients \<lparr>tv_sec = 100, tv_nsec = 0\<rparr> requester
      move_dir_request two_dirs
     = \<lparr>o_rc = Inr EPERM, o_response = None, o_bcasts = [], o_server = two_dirs\<rparr>"
  by (simp add: handler_defs sample_ns_defs move_dir_request_def SET_dir_body_def
      SET_dir_existing_def SET_dir_move_def run_defs)


lemma dir_move_requires_source_write:
  assumes "cap_or_perm e m (W_OK OR SA_OK) ''W'' v (tv_sec ts) s"
    and "S_ISDIR (md_mode m)" and "md_ino m \<noteq> 0" and "md_type m \<noteq> EXCL"
    and "md_implied_authid m = []"
    and "containers s (md_ino m) = Some cmd" and "containers s (md_pino m) = Some pcmd"
    and "c_parent cmd \<noteq> md_pino m"
    and "\<not> ValidatePERM e (default_md\<lparr>md_pino := c_parent cmd, md_mode := 16384\<rparr>) ''W'' v s"
  shows "HandleMD_SET e cl ts v m s
     = \<lparr>o_rc = Inr EPERM, o_response = None, o_bcasts = [], o_server = s\<rparr>"
  using assms
  by (simp add: HandleMD_SET_def finish_def SET_dir_body_def SET_dir_existing_def
      SET_dir_move_def bnd_getContainerMD the_container_def leave_def bnd_assoc)

text \<open>
  Claim C4 asks for write permission on both parents for every move. The branch for
  regular files has no check of the source parent, which the branch for directories has.
  In the sample namespace the requester may write to directory 2 and not to directory 1;
  the move of file 5 from directory 1 to directory 2 is acknowledged with \<open>OK\<close>, the file
  is re-parented, and an MD broadcast is emitted.
\<close>

theorem file_move_skips_source_check:
  "\<not> ValidatePERM sample_env (default_md\<lparr>md_pino := 1\<rparr>) ''W'' requester two_dirs
   \<and> ValidatePERM sample_env (default_md\<lparr>md_pino := 2\<rparr>) ''W'' requester two_dirs
   \<and> map_option f_container (files two_dirs 5) = Some 1
   \<and> o_rc (HandleMD_SET sample_env sample_Clients \<lparr>tv_sec = 100, tv_nsec = 0\<rparr> requester
          move_file_request two_dirs) = Inr 0
   \<and> o_response (HandleMD_SET sample_env sample_Clients \<lparr>tv_sec = 100, tv_nsec = 0\<rparr> requester
          move_file_request two_dirs) = Some (ack_OK move_file_request 1342177280)
   \<and> o_bcasts (HandleMD_SET sample_env sample_Clients \<lparr>tv_sec = 100, tv_nsec = 0\<rparr> requester
          move_file_request two_dirs) = [BcMD move_file_request 1342177280 2 (0, 0)]
   \<and> map_option f_container (files (o_server (HandleMD_SET sample_env sample_Clients
          \<lparr>tv_sec = 100, tv_nsec = 0\<rparr> requester move_file_request two_dirs)) 5) = Some 2
   \<and> map_option c_files (containers (o_server (HandleMD_SET sample_env sample_Clients
          \<lparr>tv_sec = 100, tv_nsec = 0\<rparr> requester move_file_request two_dirs)) 1) = Some []
   \<and> map_option c_files (containers (o_server (HandleMD_SET sample_env sample_Clients
          \<lparr>tv_sec = 100, tv_nsec = 0\<rparr> requester move_file_request two_dirs)) 2) = Some [(''f'', 5)]"
  by (simp add: handler_defs sample_ns_defs move_file_request_def SET_file_body_def
      SET_file_existing_def run_defs)

subsection \<open>Error paths of the mutations\<close>

lemma returns_in_bnd:
  "returns_in C m \<Longrightarrow> (\<And>x. returns_in C (f x)) \<Longrightarrow> returns_in C (bnd m f)"
  unfolding returns_in_def bnd_def
  by (auto split: prod.splits sum.splits)

lemma returns_in_ret: "returns_in C (ret x)"
  by (simp add: returns_in_def ret_def)

lemma returns_in_leave_Return: "c \<in> C \<Longrightarrow> returns_in C (leave (Return c))"
  by (simp add: returns_in_def leave_def)

lemma returns_in_leave_other:
  "returns_in C (leave (MDException err msg))" "returns_in C (leave (StdException x))"
  by (simp_all add: returns_in_def leave_def)

lemma returns_in_basic:
  "returns_in C (update g)" "returns_in C (read h)" "returns_in C (getContainerMD i)"
  "returns_in C (getFileMD i)" "returns_in C createContainer" "returns_in C createFile"
  "returns_in C (getAttribute i k)" "returns_in C (lift_std r)"
  by (auto simp: returns_in_def update_def read_def getContainerMD_def getFileMD_def
      createContainer_def createFile_def getAttribute_def lift_std_def leave_def ret_def
      split: option.splits sum.splits)

lemma returns_in_services:
  "returns_in C (on_container i g)" "returns_in C (on_file i k)"
  "returns_in C (removeContainerMD i)" "returns_in C (removeFileMD i)"
  "returns_in C (findContainer i n)" "returns_in C (findFile i n)"
  "returns_in C (removeContainer i n)" "returns_in C (removeFile i n)"
  "returns_in C (addContainer i j)" "returns_in C (addFile i j)"
  "returns_in C (renameContainer i n)" "returns_in C (renameFile i n)"
  unfolding on_container_def on_file_def removeContainerMD_def removeFileMD_def
    findContainer_def findFile_def removeContainer_def removeFile_def addContainer_def
    addFile_def renameContainer_def renameFile_def
  by (intro returns_in_bnd returns_in_basic)+

lemma returns_in_ignore:
  "returns_in C m \<Longrightarrow> returns_in C (ignore_MDException m)"
  unfolding returns_in_def ignore_MDException_def
  by (auto split: prod.splits sum.splits exit.splits)

lemma returns_in_if:
  "(b \<Longrightarrow> returns_in C m) \<Longrightarrow> (\<not> b \<Longrightarrow> returns_in C n) \<Longrightarrow> returns_in C (if b then m else n)"
  by simp

lemma returns_in_option:
  "returns_in C m \<Longrightarrow> (\<And>y. returns_in C (f y)) \<Longrightarrow>
   returns_in C (case x of None \<Rightarrow> m | Some y \<Rightarrow> f y)"
  by (cases x) simp_all

lemma returns_in_prod:
  "(\<And>a b. returns_in C (f a b)) \<Longrightarrow> returns_in C (case p of (a, b) \<Rightarrow> f a b)"
  by (cases p) simp

lemmas returns_in_rules = returns_in_bnd returns_in_ret returns_in_leave_other returns_in_basic
  returns_in_services returns_in_ignore returns_in_if returns_in_option returns_in_prod

lemma returns_in_SET_dir_body: "returns_in {EPERM, EEXIST, ENOTEMPTY, EDQUOT} (SET_dir_body e cl ts v m)"
  unfolding SET_dir_body_def SET_dir_existing_def SET_dir_create_def SET_dir_move_def
  by (intro returns_in_rules returns_in_leave_Return; simp)+


lemma returns_in_SET_file_body: "returns_in {EPERM, EEXIST, ENOTEMPTY, EDQUOT} (SET_file_body e v m)"
  unfolding SET_file_body_def SET_file_existing_def SET_file_create_def SET_hardlink_def
    remove_existing_file_def
  by (intro returns_in_rules returns_in_leave_Return; simp)+

lemma returns_in_SET_link_body: "returns_in {EPERM, EEXIST, ENOTEMPTY, EDQUOT} (SET_link_body e m)"
  unfolding SET_link_body_def
  by (intro returns_in_rules returns_in_leave_Return; simp)+

lemma returns_in_DELETE_body: "returns_in {EPERM, EEXIST, ENOTEMPTY, EDQUOT} (DELETE_body e v m)"
  unfolding DELETE_body_def DELETE_dir_def DELETE_file_def DELETE_link_def DELETE_done_def
    DELETE_hardlinks_def unlink_file_def
  by (intro returns_in_rules returns_in_leave_Return; simp)+

lemma yields_bnd: "(\<And>x. yields P (f x)) \<Longrightarrow> yields P (bnd m f)"
  unfolding yields_def bnd_def
  by (auto split: prod.splits sum.splits)

lemma yields_ret: "P x \<Longrightarrow> yields P (ret x)"
  by (simp add: yields_def ret_def)

lemma yields_leave: "yields P (leave x)"
  by (simp add: yields_def leave_def)

lemma yields_if:
  "(b \<Longrightarrow> yields P m) \<Longrightarrow> (\<not> b \<Longrightarrow> yields P n) \<Longrightarrow> yields P (if b then m else n)"
  by simp

lemma yields_prod:
  "(\<And>a b. yields P (f a b)) \<Longrightarrow> yields P (case p of (a, b) \<Rightarrow> f a b)"
  by (cases p) simp

lemmas yields_rules = yields_bnd yields_leave yields_if yields_prod

lemma acknowledges_OK: "acknowledges m (Some (ack_OK m ino), bcs)"
  by (simp add: acknowledges_def ack_OK_def)

lemma acknowledges_FAILURE: "acknowledges m (Some (ack_FAILURE m err msg), [])"
  by (simp add: acknowledges_def ack_FAILURE_def)

lemma acknowledges_None: "acknowledges m (None, [])"
  by (simp add: acknowledges_def)

lemmas acknowledges_rules = acknowledges_OK acknowledges_FAILURE acknowledges_None

lemma yields_SET_dir_body: "yields (acknowledges m) (SET_dir_body e cl ts v m)"
  unfolding SET_dir_body_def
  by (intro yields_rules yields_ret acknowledges_rules)

lemma yields_SET_file_body: "yields (acknowledges m) (SET_file_body e v m)"
  unfolding SET_file_body_def SET_hardlink_def
  by (intro yields_rules yields_ret acknowledges_rules)

lemma yields_SET_link_body: "yields (acknowledges m) (SET_link_body e m)"
  unfolding SET_link_body_def
  by (intro yields_rules yields_ret acknowledges_rules)

lemma yields_DELETE_body: "yields (acknowledges m) (DELETE_body e v m)"
  unfolding DELETE_body_def DELETE_dir_def DELETE_file_def DELETE_link_def DELETE_done_def
  by (intro yields_rules yields_ret acknowledges_rules)

lemma finish_well_answered:
  assumes r: "returns_in {EPERM, EEXIST, ENOTEMPTY, EDQUOT} body" and y: "yields (acknowledges m) body"
  shows "well_answered m (finish m (body s))"
proof (cases "body s")
  case (Pair x s')
  show ?thesis
  proof (cases x)
    case (Inr val)
    obtain resp bcs where val: "val = (resp, bcs)" by (cases val)
    have "acknowledges m (resp, bcs)"
      using y Pair Inr val by (auto simp: yields_def)
    then show ?thesis
      using Pair Inr val
      by (auto simp: well_answered_def finish_def acknowledges_def
          split: option.splits response.splits)
  next
    case (Inl ex)
    show ?thesis
    proof (cases ex)
      case (Return c)
      then have "c \<in> {EPERM, EEXIST, ENOTEMPTY, EDQUOT}"
        using r Pair Inl unfolding returns_in_def by blast
      then show ?thesis
        using Pair Inl Return by (auto simp: well_answered_def finish_def)
    next
      case (MDException err msg)
      then show ?thesis
        using Pair Inl by (simp add: well_answered_def finish_def ack_FAILURE_def)
    next
      case (StdException x)
      then show ?thesis
        using Pair Inl by (simp add: well_answered_def finish_def)
    qed
  qed
qed

lemma HandleMD_SET_well_answered: "well_answered m (HandleMD_SET e cl ts v m s)"
proof -
  have denied: "well_answered m \<lparr>o_rc = Inr EPERM, o_response = None, o_bcasts = [], o_server = s\<rparr>"
    by (simp add: well_answered_def)
  have through: "well_answered m \<lparr>o_rc = Inr 0, o_response = None, o_bcasts = [], o_server = s\<rparr>"
    by (simp add: well_answered_def)
  show ?thesis
    unfolding HandleMD_SET_def
    using denied through
      finish_well_answered[OF returns_in_SET_dir_body yields_SET_dir_body, of m e cl ts v s]
      finish_well_answered[OF returns_in_SET_file_body yields_SET_file_body, of m e v s]
      finish_well_answered[OF returns_in_SET_link_body yields_SET_link_body, of m e s]
    by simp
qed

lemma HandleMD_DELETE_well_answered: "well_answered m (HandleMD_DELETE e ts v m s)"
proof -
  have denied: "well_answered m \<lparr>o_rc = Inr EPERM, o_response = None, o_bcasts = [], o_server = s\<rparr>"
    by (simp add: well_answered_def)
  show ?thesis
    unfolding HandleMD_DELETE_def
    using denied finish_well_answered[OF returns_in_DELETE_body yields_DELETE_body, of m e v s]
    by simp
qed

lemma exclusive_modes:
  "S_ISREG md \<or> S_ISFIFO md \<or> S_ISLNK md \<Longrightarrow> \<not> S_ISDIR md"
  by (auto simp: S_ISREG_def S_ISFIFO_def S_ISLNK_def S_ISDIR_def)

lemma SET_missing_parent:
  assumes "cap_or_perm e m (W_OK OR SA_OK) ''W'' v (tv_sec ts) s"
    and "containers s (md_pino m) = None"
    and "S_ISREG (md_mode m) \<or> S_ISFIFO (md_mode m) \<or> S_ISLNK (md_mode m)"
  shows "HandleMD_SET e cl ts v m s
     = \<lparr>o_rc = Inr 0, o_response = Some (ack_FAILURE m ENOENT ''No such container''),
        o_bcasts = [], o_server = s\<rparr>"
  using assms exclusive_modes[OF assms(3)]
  by (auto simp: HandleMD_SET_def finish_def SET_file_body_def SET_link_body_def
      bnd_getContainerMD)

lemma DELETE_missing_parent:
  assumes "cap_or_perm e m D_OK ''D'' v (tv_sec ts) s"
    and "containers s (md_pino m) = None"
  shows "HandleMD_DELETE e ts v m s
     = \<lparr>o_rc = Inr 0, o_response = Some (ack_FAILURE m ENOENT ''No such container''),
        o_bcasts = [], o_server = s\<rparr>"
  using assms
  by (simp add: HandleMD_DELETE_def finish_def DELETE_body_def bnd_getContainerMD)

lemma DELETE_nonempty_dir:
  assumes "cap_or_perm e m D_OK ''D'' v (tv_sec ts) s"
    and "S_ISDIR (md_mode m)"
    and "containers s (md_pino m) = Some p" and "containers s (md_ino m) = Some c"
    and "md_ino m \<noteq> md_pino m"
    and "c_containers c \<noteq> [] \<or> c_files c \<noteq> []"
  shows "o_rc (HandleMD_DELETE e ts v m s) = Inr 0
     \<and> o_response (HandleMD_DELETE e ts v m s)
         = Some (ack_FAILURE m ENOTEMPTY ''directory not empty'')
     \<and> o_bcasts (HandleMD_DELETE e ts v m s) = []"
  using assms
  by (auto simp: HandleMD_DELETE_def finish_def DELETE_body_def DELETE_dir_def
      bnd_getContainerMD the_container_def ret_def)

text \<open>
  Claim C5. Not every error path of \<open>SET\<close> and \<open>DELETE\<close> answers with a failure
  acknowledgement. A refusal (no permission, an exclusive creation of something that
  exists, a non-empty target of a directory move, no quota) leaves the handler with the
  return code \<open>EPERM\<close>, \<open>EEXIST\<close>, \<open>ENOTEMPTY\<close> or \<open>EDQUOT\<close>, and then no response
  is written and nothing is broadcast. Whenever a response is written the handler returns
  0 and the response is an acknowledgement carrying the request id, with code \<open>OK\<close>, or
  with code \<open>PERMANENT_FAILURE\<close> and no broadcast. A namespace exception raised in the
  \<^verbatim>\<open>try\<close> block of the handler is answered by the failure acknowledgement with the
  errno and the message of the exception and the request id, and the handler returns 0.
\<close>

theorem mutation_error_paths:
  "well_answered m (HandleMD_SET e cl ts v m s)
   \<and> well_answered m (HandleMD_DELETE e ts v m s)
   \<and> (cap_or_perm e m (W_OK OR SA_OK) ''W'' v (tv_sec ts) s
        \<and> (S_ISDIR (md_mode m) \<or> S_ISREG (md_mode m) \<or> S_ISFIFO (md_mode m) \<or> S_ISLNK (md_mode m))
        \<and> (if S_ISDIR (md_mode m) then SET_dir_body e cl ts v m s
            else if S_ISREG (md_mode m) \<or> S_ISFIFO (md_mode m) then SET_file_body e v m s
            else SET_link_body e m s) = (Inl (MDException err msg), s')
      \<longrightarrow> HandleMD_SET e cl ts v m s
          = \<lparr>o_rc = Inr 0, o_response = Some (ack_FAILURE m err msg), o_bcasts = [],
             o_server = s'\<rparr>)
   \<and> (cap_or_perm e m D_OK ''D'' v (tv_sec ts) s
        \<and> DELETE_body e v m s = (Inl (MDException err msg), s')
      \<longrightarrow> HandleMD_DELETE e ts v m s
          = \<lparr>o_rc = Inr 0, o_response = Some (ack_FAILURE m err msg), o_bcasts = [],
             o_server = s'\<rparr>)"
proof (intro conjI impI)
  show "well_answered m (HandleMD_SET e cl ts v m s)"
    by (rule HandleMD_SET_well_answered)
  show "well_answered m (HandleMD_DELETE e ts v m s)"
    by (rule HandleMD_DELETE_well_answered)
next
  assume a: "cap_or_perm e m (W_OK OR SA_OK) ''W'' v (tv_sec ts) s
        \<and> (S_ISDIR (md_mode m) \<or> S_ISREG (md_mode m) \<or> S_ISFIFO (md_mode m) \<or> S_ISLNK (md_mode m))
        \<and> (if S_ISDIR (md_mode m) then SET_dir_body e cl ts v m s
            else if S_ISREG (md_mode m) \<or> S_ISFIFO (md_mode m) then SET_file_body e v m s
            else SET_link_body e m s) = (Inl (MDException err msg), s')"
  then show "HandleMD_SET e cl ts v m s
          = \<lparr>o_rc = Inr 0, o_response = Some (ack_FAILURE m err msg), o_bcasts = [],
             o_server = s'\<rparr>"
    by (auto simp: HandleMD_SET_def finish_def)
next
  assume "cap_or_perm e m D_OK ''D'' v (tv_sec ts) s
        \<and> DELETE_body e v m s = (Inl (MDException err msg), s')"
  then show "HandleMD_DELETE e ts v m s
          = \<lparr>o_rc = Inr 0, o_response = Some (ack_FAILURE m err msg), o_bcasts = [],
             o_server = s'\<rparr>"
    by (simp add: HandleMD_DELETE_def finish_def)
qed

lemma capped_ns_cap_or_perm:
  "cap_or_perm sample_env orphan_request D_OK ''D'' requester 100 capped_ns"
  "cap_or_perm sample_env (orphan_request\<lparr>md_operation := SET\<rparr>) (W_OK OR SA_OK) ''W'' requester 100 capped_ns"
  by (simp_all add: cap_or_perm_def ValidateCAP_def Get_cap_def Get_def capped_ns_def
      orphan_request_def sample_defs two_dirs_def)

lemma capped_ns_no_parent: "containers capped_ns 99 = None"
  by (simp add: capped_ns_def two_dirs_def)

theorem mutation_error_paths_witness:
  "HandleMD_SET sample_env sample_Clients \<lparr>tv_sec = 100, tv_nsec = 0\<rparr> requester
      (orphan_request\<lparr>md_operation := SET\<rparr>) capped_ns
     = \<lparr>o_rc = Inr 0,
        o_response = Some (ack_FAILURE (orphan_request\<lparr>md_operation := SET\<rparr>) ENOENT ''No such container''),
        o_bcasts = [], o_server = capped_ns\<rparr>
   \<and> HandleMD_DELETE sample_env \<lparr>tv_sec = 100, tv_nsec = 0\<rparr> requester orphan_request capped_ns
     = \<lparr>o_rc = Inr 0,
        o_response = Some (ack_FAILURE orphan_request ENOENT ''No such container''),
        o_bcasts = [], o_server = capped_ns\<rparr>
   \<and> o_rc (HandleMD_SET sample_env sample_Clients \<lparr>tv_sec = 100, tv_nsec = 0\<rparr> requester
        move_dir_request two_dirs) = Inr EPERM
   \<and> o_response (HandleMD_SET sample_env sample_Clients \<lparr>tv_sec = 100, tv_nsec = 0\<rparr> requester
        move_dir_request two_dirs) = None
   \<and> o_bcasts (HandleMD_SET sample_env sample_Clients \<lparr>tv_sec = 100, tv_nsec = 0\<rparr> requester
        move_dir_request two_dirs) = []"
proof -
  let ?ts = "\<lparr>tv_sec = 100, tv_nsec = 0\<rparr>"
  let ?set = "orphan_request\<lparr>md_operation := SET\<rparr>"
  have reg: "S_ISREG (md_mode ?set)" "\<not> S_ISDIR (md_mode ?set)"
    by (simp_all add: orphan_request_def default_md_def S_ISREG_def S_ISDIR_def)
  have pino: "md_pino ?set = 99" "md_pino orphan_request = 99"
    by (simp_all add: orphan_request_def)
  have set_body: "SET_file_body sample_env requester ?set capped_ns
      = (Inl (MDException ENOENT ''No such container''), capped_ns)"
    by (simp add: SET_file_body_def bnd_getContainerMD pino capped_ns_no_parent)
  have del_body: "DELETE_body sample_env requester orphan_request capped_ns
      = (Inl (MDException ENOENT ''No such container''), capped_ns)"
    by (simp add: DELETE_body_def bnd_getContainerMD pino capped_ns_no_parent)
  have rc: "o_rc (HandleMD_SET sample_env sample_Clients ?ts requester move_dir_request two_dirs)
      = Inr EPERM"
    by (simp add: handler_defs sample_ns_defs move_dir_request_def SET_dir_body_def
      SET_dir_existing_def SET_dir_move_def run_defs)
  note main = mutation_error_paths [of ?set sample_env sample_Clients ?ts requester capped_ns
      ENOENT "''No such container''" capped_ns]
  note del = mutation_error_paths [of orphan_request sample_env sample_Clients ?ts requester capped_ns
      ENOENT "''No such container''" capped_ns]
  note denied = mutation_error_paths [of move_dir_request sample_env sample_Clients ?ts requester
      two_dirs]
  have a: "HandleMD_SET sample_env sample_Clients ?ts requester ?set capped_ns
     = \<lparr>o_rc = Inr 0, o_response = Some (ack_FAILURE ?set ENOENT ''No such container''),
        o_bcasts = [], o_server = capped_ns\<rparr>"
    using main reg set_body capped_ns_cap_or_perm(2) by simp
  have b: "HandleMD_DELETE sample_env ?ts requester orphan_request capped_ns
     = \<lparr>o_rc = Inr 0, o_response = Some (ack_FAILURE orphan_request ENOENT ''No such container''),
        o_bcasts = [], o_server = capped_ns\<rparr>"
    using del del_body capped_ns_cap_or_perm(1) by simp
  have c: "o_response (HandleMD_SET sample_env sample_Clients ?ts requester move_dir_request two_dirs) = None
     \<and> o_bcasts (HandleMD_SET sample_env sample_Clients ?ts requester move_dir_request two_dirs) = []"
    using denied rc unfolding well_answered_def by simp
  show ?thesis using a b c rc by simp
qed

theorem exclusive_SET_without_ACK_counterexample:
  "o_rc (HandleMD_SET sample_env sample_Clients \<lparr>tv_sec = 100, tv_nsec = 0\<rparr> requester
        exclusive_dir_request two_dirs) = Inr EEXIST
   \<and> o_response (HandleMD_SET sample_env sample_Clients \<lparr>tv_sec = 100, tv_nsec = 0\<rparr> requester
        exclusive_dir_request two_dirs) = None"
  by (simp add: handler_defs sample_ns_defs exclusive_dir_request_def move_dir_request_def
      SET_dir_body_def run_defs)

subsection \<open>The count of hard links\<close>










lemma take_hlnk: "take 8 (''////hlnk'' @ r) = ''////hlnk''"
  by simp










end
